theory Spec2Isabelle
  imports Complex_Main
begin

section \<open>Strings\<close>

text \<open>
  A JavaScript string is a sequence of UTF-16 code units. It is modelled as the list of
  its code units, each a natural number, so that the regular expression of the streaming
  assembler, \<^verbatim>\<open>String.prototype.trim\<close> and the \<^verbatim>\<open>\uXXXX\<close> escapes of JSON act on
  exactly what the program sees. \<open>js ''abc''\<close> is the string with the code units of the
  ASCII text \<open>abc\<close>.
\<close>

type_synonym jsstring = "nat list"

abbreviation (input) js :: "string \<Rightarrow> jsstring" where
  "js s \<equiv> map of_char s"

text \<open>
  White space as \<^verbatim>\<open>\s\<close> and \<^verbatim>\<open>trim\<close> understand it (ECMAScript WhiteSpace and
  LineTerminator), and the line terminators that \<^verbatim>\<open>.\<close> does not match.
\<close>

definition js_space :: "nat \<Rightarrow> bool" where
  "js_space c =
     (c = 9 \<or> c = 10 \<or> c = 11 \<or> c = 12 \<or> c = 13 \<or> c = 32 \<or> c = 160 \<or> c = 5760 \<or>
      (8192 \<le> c \<and> c \<le> 8202) \<or> c = 8232 \<or> c = 8233 \<or> c = 8239 \<or> c = 8287 \<or>
      c = 12288 \<or> c = 65279)"

definition line_terminator :: "nat \<Rightarrow> bool" where
  "line_terminator c = (c = 10 \<or> c = 13 \<or> c = 8232 \<or> c = 8233)"

definition trim :: "jsstring \<Rightarrow> jsstring" where
  "trim s = rev (dropWhile js_space (rev (dropWhile js_space s)))"

section \<open>JSON.parse\<close>

text \<open>
  \<^verbatim>\<open>JSON.parse\<close> following the JSON grammar: white space is space, tab, line feed and
  carriage return; a string may not contain a raw control character and knows the escapes
  \<^verbatim>\<open>\" \\ \/ \b \f \n \r \t \uXXXX\<close>; a number is
  \<^verbatim>\<open>-?(0|[1-9][0-9]*)(\.[0-9]+)?([eE][+-]?[0-9]+)?\<close>; no trailing commas; nothing but white
  space after the value. A number is kept as its literal text. \<open>None\<close> is the SyntaxError.
  The parsers return the value read together with the unread rest of the text.
\<close>

datatype json =
    JNull
  | JBool bool
  | JNumber jsstring
  | JString jsstring
  | JArray "json list"
  | JObject "(jsstring \<times> json) list"

definition json_ws :: "nat \<Rightarrow> bool" where
  "json_ws c = (c = 32 \<or> c = 9 \<or> c = 10 \<or> c = 13)"

definition digit :: "nat \<Rightarrow> bool" where
  "digit c = (48 \<le> c \<and> c \<le> 57)"

definition hexval :: "nat \<Rightarrow> nat option" where
  "hexval c =
     (if 48 \<le> c \<and> c \<le> 57 then Some (c - 48)
      else if 65 \<le> c \<and> c \<le> 70 then Some (c - 55)
      else if 97 \<le> c \<and> c \<le> 102 then Some (c - 87)
      else None)"

definition hex4 :: "nat \<Rightarrow> nat \<Rightarrow> nat \<Rightarrow> nat \<Rightarrow> nat option" where
  "hex4 a b c d =
     (case (hexval a, hexval b, hexval c, hexval d) of
        (Some w, Some x, Some y, Some z) \<Rightarrow> Some (((w * 16 + x) * 16 + y) * 16 + z)
      | _ \<Rightarrow> None)"

definition unescape :: "nat \<Rightarrow> nat option" where
  "unescape e =
     (if e = 34 then Some 34
      else if e = 92 then Some 92
      else if e = 47 then Some 47
      else if e = 98 then Some 8
      else if e = 102 then Some 12
      else if e = 110 then Some 10
      else if e = 114 then Some 13
      else if e = 116 then Some 9
      else None)"

definition consTo :: "nat \<Rightarrow> (jsstring \<times> jsstring) option \<Rightarrow> (jsstring \<times> jsstring) option" where
  "consTo c r = map_option (\<lambda>(s, rest). (c # s, rest)) r"

fun json_string :: "jsstring \<Rightarrow> (jsstring \<times> jsstring) option" where
  "json_string [] = None"
| "json_string (c # cs) =
     (if c = 34 then Some ([], cs)
      else if c = 92 then
        (case cs of
           [] \<Rightarrow> None
         | e # es \<Rightarrow>
             if e = 117 then
               (case es of
                  a # b # x # y # rest \<Rightarrow>
                    (case hex4 a b x y of
                       None \<Rightarrow> None
                     | Some u \<Rightarrow> consTo u (json_string rest))
                | _ \<Rightarrow> None)
             else
               (case unescape e of
                  None \<Rightarrow> None
                | Some d \<Rightarrow> consTo d (json_string es)))
      else if c < 32 then None
      else consTo c (json_string cs))"

definition digits1 :: "jsstring \<Rightarrow> (jsstring \<times> jsstring) option" where
  "digits1 cs = (if takeWhile digit cs = [] then None
                 else Some (takeWhile digit cs, dropWhile digit cs))"

definition json_int :: "jsstring \<Rightarrow> (jsstring \<times> jsstring) option" where
  "json_int cs =
     (case cs of
        [] \<Rightarrow> None
      | d # r \<Rightarrow>
          if d = 48 then Some ([48], r)
          else if digit d then Some (d # takeWhile digit r, dropWhile digit r)
          else None)"

definition json_frac :: "jsstring \<Rightarrow> (jsstring \<times> jsstring) option" where
  "json_frac cs =
     (case cs of
        [] \<Rightarrow> Some ([], cs)
      | p # r \<Rightarrow>
          if p = 46 then map_option (\<lambda>(ds, rest). (46 # ds, rest)) (digits1 r)
          else Some ([], cs))"

definition json_exp :: "jsstring \<Rightarrow> (jsstring \<times> jsstring) option" where
  "json_exp cs =
     (case cs of
        [] \<Rightarrow> Some ([], cs)
      | e # r \<Rightarrow>
          if e = 101 \<or> e = 69 then
            (case r of
               [] \<Rightarrow> None
             | s # r' \<Rightarrow>
                 if s = 43 \<or> s = 45
                 then map_option (\<lambda>(ds, rest). (e # s # ds, rest)) (digits1 r')
                 else map_option (\<lambda>(ds, rest). (e # ds, rest)) (digits1 r))
          else Some ([], cs))"

definition json_number :: "jsstring \<Rightarrow> (jsstring \<times> jsstring) option" where
  "json_number cs =
     (let (sign, r0) = (case cs of [] \<Rightarrow> ([], cs) | m # r \<Rightarrow> if m = 45 then ([45], r) else ([], cs))
      in case json_int r0 of
           None \<Rightarrow> None
         | Some (ip, r1) \<Rightarrow>
             (case json_frac r1 of
                None \<Rightarrow> None
              | Some (fp, r2) \<Rightarrow>
                  (case json_exp r2 of
                     None \<Rightarrow> None
                   | Some (ep, r3) \<Rightarrow> Some (sign @ ip @ fp @ ep, r3))))"

definition strip :: "jsstring \<Rightarrow> jsstring \<Rightarrow> jsstring option" where
  "strip p cs = (if take (length p) cs = p then Some (drop (length p) cs) else None)"

definition json_scalar :: "jsstring \<Rightarrow> (json \<times> jsstring) option" where
  "json_scalar cs =
     (case cs of
        [] \<Rightarrow> None
      | c # r \<Rightarrow>
          if c = 34 then map_option (\<lambda>(s, rest). (JString s, rest)) (json_string r)
          else if c = 116 then map_option (\<lambda>rest. (JBool True, rest)) (strip (js ''true'') cs)
          else if c = 102 then map_option (\<lambda>rest. (JBool False, rest)) (strip (js ''false'') cs)
          else if c = 110 then map_option (\<lambda>rest. (JNull, rest)) (strip (js ''null'') cs)
          else map_option (\<lambda>(n, rest). (JNumber n, rest)) (json_number cs))"

lemma json_string_shorter: "json_string cs = Some (s, rest) \<Longrightarrow> length rest < Suc (length cs)"
  by (induction cs arbitrary: s rest rule: json_string.induct)
     (fastforce simp: consTo_def split: if_splits list.splits option.splits)+

lemma dropWhile_Cons_shorter: "dropWhile P xs = y # ys \<Longrightarrow> length ys < length xs"
  using length_dropWhile_le [of P xs] by simp

function json_value :: "jsstring \<Rightarrow> (json \<times> jsstring) option"
  and json_elements :: "json list \<Rightarrow> jsstring \<Rightarrow> (json \<times> jsstring) option"
  and json_members :: "(jsstring \<times> json) list \<Rightarrow> jsstring \<Rightarrow> (json \<times> jsstring) option"
where
  "json_value cs =
     (case dropWhile json_ws cs of
        [] \<Rightarrow> None
      | c # r \<Rightarrow>
          if c = 91 then
            (case dropWhile json_ws r of
               [] \<Rightarrow> None
             | c' # r' \<Rightarrow> if c' = 93 then Some (JArray [], r') else json_elements [] r)
          else if c = 123 then
            (case dropWhile json_ws r of
               [] \<Rightarrow> None
             | c' # r' \<Rightarrow> if c' = 125 then Some (JObject [], r') else json_members [] r)
          else json_scalar (c # r))"
| "json_elements acc cs =
     (case json_value cs of
        None \<Rightarrow> None
      | Some (v, r) \<Rightarrow>
          if length r < length cs then
            (case dropWhile json_ws r of
               [] \<Rightarrow> None
             | c # r' \<Rightarrow>
                 if c = 44 then json_elements (acc @ [v]) r'
                 else if c = 93 then Some (JArray (acc @ [v]), r')
                 else None)
          else None)"
| "json_members acc cs =
     (case dropWhile json_ws cs of
        [] \<Rightarrow> None
      | q # r \<Rightarrow>
          if q = 34 then
            (case json_string r of
               None \<Rightarrow> None
             | Some (k, r1) \<Rightarrow>
                 (case dropWhile json_ws r1 of
                    [] \<Rightarrow> None
                  | colon # r2 \<Rightarrow>
                      if colon = 58 then
                        (case json_value r2 of
                           None \<Rightarrow> None
                         | Some (v, r3) \<Rightarrow>
                             if length r3 < length r2 then
                               (case dropWhile json_ws r3 of
                                  [] \<Rightarrow> None
                                | c # r4 \<Rightarrow>
                                    if c = 44 then json_members (acc @ [(k, v)]) r4
                                    else if c = 125 then Some (JObject (acc @ [(k, v)]), r4)
                                    else None)
                             else None)
                      else None))
          else None)"
  by pat_completeness auto

termination
proof (relation "measure (\<lambda>x. case x of
          Inl cs \<Rightarrow> 2 * length cs
        | Inr (Inl (acc, cs)) \<Rightarrow> 2 * length cs + 1
        | Inr (Inr (acc, cs)) \<Rightarrow> 2 * length cs + 1)", goal_cases)
  case 1 show ?case by simp
next
  case (2 cs c r c' r') then show ?case by (auto dest!: dropWhile_Cons_shorter)
next
  case (3 cs c r c' r') then show ?case by (auto dest!: dropWhile_Cons_shorter)
next
  case (4 acc cs) then show ?case by simp
next
  case (5 acc cs x v r c r') then show ?case by (auto dest!: dropWhile_Cons_shorter)
next
  case (6 acc cs q r x k r1 colon r2)
  then show ?case by (auto dest!: dropWhile_Cons_shorter json_string_shorter)
next
  case (7 acc cs q r x k r1 colon r2 y v r3 c r4)
  then show ?case by (auto dest!: dropWhile_Cons_shorter json_string_shorter)
qed

declare json_value.simps [simp del] json_elements.simps [simp del] json_members.simps [simp del]

definition JSON_parse :: "jsstring \<Rightarrow> json option" where
  "JSON_parse t =
     (case json_value t of
        None \<Rightarrow> None
      | Some (v, rest) \<Rightarrow> if dropWhile json_ws rest = [] then Some v else None)"

section \<open>The narrative pattern\<close>

text \<open>
  \<^verbatim>\<open>accumulatedJson.match(/"narrative"\s*:\s*"((?:\\.|[^"\\])*)"/)\<close>.
  \<open>narrative_body\<close> reads the group \<^verbatim>\<open>((?:\\.|[^"\\])*)\<close> and the closing quote after
  it. The two alternatives start with different characters and neither can start with a
  quote, so giving back iterations never makes the closing quote match where the greedy
  scan did not: the scan is deterministic. The same holds for \<^verbatim>\<open>\s*\<close> before the colon
  and before the opening quote. \<open>narrative_at\<close> is a match that starts at the head of the
  text, \<open>narrative_match\<close> tries every start from left to right and yields group 1 of the
  first match, \<open>None\<close> for \<^verbatim>\<open>null\<close>.
\<close>

fun narrative_body :: "jsstring \<Rightarrow> jsstring option" where
  "narrative_body [] = None"
| "narrative_body (c # cs) =
     (if c = 34 then Some []
      else if c = 92 then
        (case cs of
           [] \<Rightarrow> None
         | d # ds \<Rightarrow>
             if line_terminator d then None
             else map_option (\<lambda>g. c # d # g) (narrative_body ds))
      else map_option (\<lambda>g. c # g) (narrative_body cs))"

definition narrative_at :: "jsstring \<Rightarrow> jsstring option" where
  "narrative_at cs =
     (case strip (js ''\"narrative\"'') cs of
        None \<Rightarrow> None
      | Some r \<Rightarrow>
          (case dropWhile js_space r of
             [] \<Rightarrow> None
           | colon # r1 \<Rightarrow>
               if colon = 58 then
                 (case dropWhile js_space r1 of
                    [] \<Rightarrow> None
                  | q # r2 \<Rightarrow> if q = 34 then narrative_body r2 else None)
               else None))"

fun narrative_match :: "jsstring \<Rightarrow> jsstring option" where
  "narrative_match [] = narrative_at []"
| "narrative_match (c # cs) =
     (case narrative_at (c # cs) of
        Some g \<Rightarrow> Some g
      | None \<Rightarrow> narrative_match cs)"

section \<open>Data model (types.ts)\<close>

text \<open>
  The interfaces of the game. A field whose name several interfaces share carries a
  prefix; \<^verbatim>\<open>text\<close> and \<^verbatim>\<open>type\<close> are renamed throughout. A \<^verbatim>\<open>number\<close> is an \<open>int\<close>:
  the response schema declares every numeric field an INTEGER. An optional field
  (\<^verbatim>\<open>?\<close>) is an \<open>option\<close>, \<open>None\<close> standing for \<^verbatim>\<open>undefined\<close>.
\<close>

record Faction =
  faction_name :: jsstring
  faction_description :: jsstring
  leader :: jsstring
  headquarters :: jsstring
  ideology :: jsstring
  relationships :: jsstring
  sigilImageUrl :: jsstring

record TimelineEvent =
  era :: jsstring
  era_description :: jsstring

record Discovery =
  disc_name :: jsstring
  disc_description :: jsstring

record Secret =
  secret_title :: jsstring
  secret_description :: jsstring

record Deity =
  deity_name :: jsstring
  domain :: jsstring
  deity_description :: jsstring

record Cosmology =
  creationMyth :: jsstring
  deities :: "Deity list"

record MagicSystem =
  magic_name :: jsstring
  magic_description :: jsstring
  rules :: "jsstring list"

record Race =
  race_name :: jsstring
  race_description :: jsstring
  abilities :: jsstring

record Creature =
  creature_name :: jsstring
  creature_description :: jsstring
  habitat :: jsstring

record HistoricalFigure =
  figure_name :: jsstring
  figure_description :: jsstring
  significance :: jsstring

record Lore =
  worldName :: jsstring
  coreConcept :: jsstring
  factions :: "Faction list"
  timeline :: "TimelineEvent list"
  locations :: "Discovery list"
  characters :: "Discovery list"
  knowledge :: "jsstring list"
  secrets :: "Secret list"
  cosmology :: Cosmology
  magicSystem :: MagicSystem
  races :: "Race list"
  creatures :: "Creature list"
  historicalFigures :: "HistoricalFigure list"

record Character =
  char_name :: jsstring
  backstory :: jsstring
  health :: int
  maxHealth :: int
  mana :: int
  maxMana :: int
  stamina :: int
  maxStamina :: int
  level :: int
  xp :: int
  xpToNextLevel :: int

record Setting =
  setting_name :: jsstring
  setting_description :: jsstring

record Scenario =
  character :: Character
  setting :: Setting
  goal :: jsstring
  scenario_objective :: jsstring

datatype Objective =
  Objective (otext: jsstring) (isCompleted: bool) (subObjectives: "Objective list option")

datatype QuestStatus = Active | Completed | Failed

record Quest =
  title :: jsstring
  quest_description :: jsstring
  status :: QuestStatus
  objectives :: "Objective list"

datatype ItemRarity = Common | Uncommon | Rare | Epic | Legendary

datatype ItemType = Consumable | QuestItem | Equipment | Tome

datatype Stat = Health | Mana | Stamina

record ItemEffect =
  stat :: Stat
  effect_value :: int

record Item =
  item_name :: jsstring
  item_description :: jsstring
  rarity :: ItemRarity
  item_type :: ItemType
  usable :: bool
  effects :: "ItemEffect list"

datatype EntryType = Player | Narrator

record StoryEntry =
  entry_type :: EntryType
  entry_text :: jsstring
  characterName :: "jsstring option"
  imageUrl :: "jsstring option"
  imageIsLoading :: "bool option"

record GameState =
  lore :: Lore
  scenario :: Scenario
  inventory :: "Item list"
  currentLocation :: jsstring
  storyLog :: "StoryEntry list"
  objective :: jsstring
  quests :: "Quest list"
  isGameOver :: bool
  gameOverMessage :: jsstring

record DialogueLine =
  speaker :: jsstring
  line_text :: jsstring

text \<open>The two values a \<^verbatim>\<open>questUpdate.newStatus\<close> can take, and the quest status each names.\<close>

datatype Resolution = NowCompleted | NowFailed

fun statusOf :: "Resolution \<Rightarrow> QuestStatus" where
  "statusOf NowCompleted = Completed"
| "statusOf NowFailed = Failed"

record QuestUpdate =
  questTitle :: jsstring
  objectiveText :: jsstring
  newStatus :: "Resolution option"

record CharacterUpdate =
  upd_health :: "int option"
  upd_mana :: "int option"
  upd_stamina :: "int option"
  xpGained :: "int option"

datatype LoreType = OfLocation | OfCharacter | OfKnowledge

record LoreUpdate =
  lore_type :: LoreType
  lore_name :: jsstring
  lore_description :: jsstring

record GeminiResponse =
  narrative :: jsstring
  dialogue :: "DialogueLine list option"
  newLocation :: jsstring
  updatedInventory :: "Item list"
  newObjective :: jsstring
  newQuest :: "Quest option"
  questUpdate :: "QuestUpdate option"
  resp_isGameOver :: bool
  resp_gameOverMessage :: jsstring
  characterUpdate :: "CharacterUpdate option"
  loreUpdate :: "LoreUpdate option"
  requestImageGeneration :: "bool option"

section \<open>GameScreen\<close>

text \<open>
  The state of the GameScreen component that its handlers read and write; the tab, the
  notifications and the tooltip only concern the display. A handler runs from start to
  end on the current state: the state that its closure captured and the state that the
  functional updates receive are the same one, and nothing else writes the story log
  while a turn is in flight.
\<close>

record Screen =
  gameState :: GameState
  playerInput :: jsstring
  isLoading :: bool
  proposedUpdate :: "LoreUpdate option"
  isLevelingUp :: bool

definition initialScreen :: "Lore \<Rightarrow> Scenario \<Rightarrow> Screen" where
  "initialScreen l sc =
     \<lparr>gameState =
        \<lparr>lore = l, scenario = sc, inventory = [],
         currentLocation = setting_name (setting sc),
         storyLog = [\<lparr>entry_type = Narrator, entry_text = setting_description (setting sc),
                      characterName = None, imageUrl = None, imageIsLoading = None\<rparr>],
         objective = scenario_objective sc, quests = [],
         isGameOver = False, gameOverMessage = []\<rparr>,
      playerInput = [], isLoading = False, proposedUpdate = None, isLevelingUp = False\<rparr>"

subsection \<open>Scene images\<close>

text \<open>
  A requested image is a placeholder entry of the story log until the image service
  answers: the image is then attached to every entry still loading, or every such entry
  is removed when the service failed.
\<close>

definition placeholderEntry :: StoryEntry where
  "placeholderEntry =
     \<lparr>entry_type = Narrator, entry_text = [], characterName = None, imageUrl = None,
      imageIsLoading = Some True\<rparr>"

definition stillLoading :: "StoryEntry \<Rightarrow> bool" where
  "stillLoading entry = (imageIsLoading entry = Some True)"

definition generateInitialImage :: "Screen \<Rightarrow> Screen" where
  "generateInitialImage s =
     (if setting_description (setting (scenario (gameState s))) = [] then s
      else s\<lparr>gameState := (gameState s)\<lparr>storyLog := storyLog (gameState s) @ [placeholderEntry]\<rparr>\<rparr>)"

definition imageReady :: "jsstring \<Rightarrow> Screen \<Rightarrow> Screen" where
  "imageReady url s =
     s\<lparr>gameState := (gameState s)\<lparr>storyLog :=
          map (\<lambda>entry. if stillLoading entry
                         then entry\<lparr>imageIsLoading := Some False, imageUrl := Some url\<rparr>
                         else entry)
              (storyLog (gameState s))\<rparr>\<rparr>"

definition imageFailed :: "Screen \<Rightarrow> Screen" where
  "imageFailed s =
     s\<lparr>gameState := (gameState s)\<lparr>storyLog :=
          filter (\<lambda>entry. \<not> stillLoading entry) (storyLog (gameState s))\<rparr>\<rparr>"

subsection \<open>Lore updates\<close>

definition handleAcceptUpdate :: "Screen \<Rightarrow> Screen" where
  "handleAcceptUpdate s =
     (case proposedUpdate s of
        None \<Rightarrow> s
      | Some u \<Rightarrow>
          (let prev = gameState s;
               newLore =
                 (case lore_type u of
                    OfLocation \<Rightarrow>
                      if \<not> list_ex (\<lambda>l. disc_name l = lore_name u) (locations (lore prev))
                      then (lore prev)\<lparr>locations := locations (lore prev) @
                              [\<lparr>disc_name = lore_name u, disc_description = lore_description u\<rparr>]\<rparr>
                      else lore prev
                  | OfCharacter \<Rightarrow>
                      if \<not> list_ex (\<lambda>c. disc_name c = lore_name u) (characters (lore prev))
                      then (lore prev)\<lparr>characters := characters (lore prev) @
                              [\<lparr>disc_name = lore_name u, disc_description = lore_description u\<rparr>]\<rparr>
                      else lore prev
                  | OfKnowledge \<Rightarrow>
                      (let newKnowledge = lore_name u @ js '': '' @ lore_description u
                       in if newKnowledge \<notin> set (knowledge (lore prev))
                          then (lore prev)\<lparr>knowledge := knowledge (lore prev) @ [newKnowledge]\<rparr>
                          else lore prev))
           in s\<lparr>gameState := prev\<lparr>lore := newLore\<rparr>, proposedUpdate := None\<rparr>))"

definition handleRejectUpdate :: "Screen \<Rightarrow> Screen" where
  "handleRejectUpdate s = s\<lparr>proposedUpdate := None\<rparr>"

subsection \<open>Quests\<close>

lemma subObjectives_smaller:
  assumes "obj \<in> set objs" and "subObjectives obj = Some subs"
  shows "size_list size subs < size_list size objs"
proof -
  from assms(2) have "size_list size subs < size obj" by (cases obj) simp
  moreover from assms(1) have "size obj \<le> size_list size objs"
    by (simp add: size_list_estimation')
  ultimately show ?thesis by simp
qed

text \<open>
  \<^verbatim>\<open>wasChanged\<close> compares the JSON texts of the new and the old sub-objectives. The new
  list is built from the old one by spreading each objective, which keeps its keys and
  their order, so the two texts differ exactly when the two lists do.
\<close>

function updateObjectivesRecursively :: "Objective list \<Rightarrow> jsstring \<Rightarrow> Objective list" where
  "updateObjectivesRecursively objs t =
     map (\<lambda>obj.
        if otext obj = t then Objective (otext obj) True (subObjectives obj)
        else
          (case subObjectives obj of
             Some subs \<Rightarrow>
               (let newSubObjectives = updateObjectivesRecursively subs t;
                    wasChanged = (newSubObjectives \<noteq> subs)
                in if wasChanged
                   then (let allSubsComplete = list_all isCompleted newSubObjectives
                         in Objective (otext obj) allSubsComplete (Some newSubObjectives))
                   else obj)
           | None \<Rightarrow> obj)) objs"
  by pat_completeness auto
termination
  by (relation "measure (\<lambda>(objs, t). size_list size objs)") (auto simp: subObjectives_smaller)

function areAllObjectivesComplete :: "Objective list \<Rightarrow> bool" where
  "areAllObjectivesComplete objs =
     list_all (\<lambda>obj. isCompleted obj \<and>
                 (case subObjectives obj of
                    None \<Rightarrow> True
                  | Some subs \<Rightarrow> areAllObjectivesComplete subs)) objs"
  by pat_completeness auto
termination
  by (relation "measure (size_list size)") (auto simp: subObjectives_smaller)

declare updateObjectivesRecursively.simps [simp del] areAllObjectivesComplete.simps [simp del]

definition applyQuestUpdate :: "QuestUpdate \<Rightarrow> Quest \<Rightarrow> Quest" where
  "applyQuestUpdate u q =
     (if title q = questTitle u then
        (let updatedObjectives = updateObjectivesRecursively (objectives q) (objectiveText u);
             allComplete = areAllObjectivesComplete updatedObjectives;
             finalStatus = (case newStatus u of
                              Some st \<Rightarrow> statusOf st
                            | None \<Rightarrow> if allComplete then Completed else status q)
         in q\<lparr>objectives := updatedObjectives, status := finalStatus\<rparr>)
      else q)"

definition reconcileQuests :: "GeminiResponse \<Rightarrow> Quest list \<Rightarrow> Quest list" where
  "reconcileQuests response qs =
     (let updatedQuests = (case newQuest response of
                             Some q \<Rightarrow> qs @ [q]
                           | None \<Rightarrow> qs)
      in case questUpdate response of
           Some u \<Rightarrow> map (applyQuestUpdate u) updatedQuests
         | None \<Rightarrow> updatedQuests)"

subsection \<open>Character\<close>

definition applyStats :: "GeminiResponse \<Rightarrow> Character \<Rightarrow> Character" where
  "applyStats response c =
     (case characterUpdate response of
        None \<Rightarrow> c
      | Some cu \<Rightarrow>
          (let c1 = (case upd_health cu of Some h \<Rightarrow> c\<lparr>health := h\<rparr> | None \<Rightarrow> c);
               c2 = (case upd_mana cu of Some m \<Rightarrow> c1\<lparr>mana := m\<rparr> | None \<Rightarrow> c1)
           in case upd_stamina cu of Some st \<Rightarrow> c2\<lparr>stamina := st\<rparr> | None \<Rightarrow> c2))"

text \<open>
  \<^verbatim>\<open>response.characterUpdate?.xpGained\<close> as the condition of an \<^verbatim>\<open>if\<close>: the amount when it
  is present and not zero.
\<close>

definition truthyXp :: "GeminiResponse \<Rightarrow> int option" where
  "truthyXp response =
     (case characterUpdate response of
        None \<Rightarrow> None
      | Some cu \<Rightarrow>
          (case xpGained cu of
             None \<Rightarrow> None
           | Some amount \<Rightarrow> if amount = 0 then None else Some amount))"

definition applyXp :: "GeminiResponse \<Rightarrow> Character \<Rightarrow> Character" where
  "applyXp response updatedCharacter =
     (case truthyXp response of
        None \<Rightarrow> updatedCharacter
      | Some amount \<Rightarrow> updatedCharacter\<lparr>xp := xp updatedCharacter + amount\<rparr>)"

definition levelUpTriggered :: "GeminiResponse \<Rightarrow> Character \<Rightarrow> bool" where
  "levelUpTriggered response updatedCharacter =
     (case truthyXp response of
        None \<Rightarrow> False
      | Some amount \<Rightarrow>
          (let newXp = xp updatedCharacter + amount
           in newXp \<ge> xpToNextLevel updatedCharacter))"

definition handleLevelUpConfirm :: "int \<Rightarrow> int \<Rightarrow> int \<Rightarrow> Screen \<Rightarrow> Screen" where
  "handleLevelUpConfirm incHealth incMana incStamina s =
     (let prev = gameState s;
          char = character (scenario prev);
          newMaxHealth = maxHealth char + incHealth;
          newMaxMana = maxMana char + incMana;
          newMaxStamina = maxStamina char + incStamina;
          updatedCharacter = char
            \<lparr>level := level char + 1,
             xp := xp char - xpToNextLevel char,
             xpToNextLevel := \<lfloor>real_of_int (xpToNextLevel char) * 1.5\<rfloor>,
             maxHealth := newMaxHealth,
             maxMana := newMaxMana,
             maxStamina := newMaxStamina,
             health := newMaxHealth,
             mana := newMaxMana,
             stamina := newMaxStamina\<rparr>
      in s\<lparr>gameState := prev\<lparr>scenario := (scenario prev)\<lparr>character := updatedCharacter\<rparr>\<rparr>,
            isLevelingUp := False\<rparr>)"

subsection \<open>A turn: executeAction\<close>

text \<open>
  What the program cannot decide by itself is a parameter. The model gateway either fails
  to open the stream (\<^verbatim>\<open>getNextStepStream\<close> then throws its own Error) or delivers the
  texts of some chunks and then ends, or throws while being read. The JavaScript engine
  supplies the message of the SyntaxError of \<^verbatim>\<open>JSON.parse\<close>, and the reading of a parsed
  document as a \<^verbatim>\<open>GeminiResponse\<close>: the type assertion of the source checks nothing, and
  \<open>asResponse\<close> is \<open>None\<close> for a document that is not of that type, where the turn is
  outside this model (\<open>executeAction\<close> is \<open>None\<close>).
\<close>

datatype Thrown = ErrorWith jsstring | NotAnError

datatype Gateway = CallFails | Streams "jsstring list" "Thrown option"

record Engine =
  syntaxErrorMessage :: "jsstring \<Rightarrow> jsstring"
  asResponse :: "json \<Rightarrow> GeminiResponse option"

definition errorTextOf :: "Thrown \<Rightarrow> jsstring" where
  "errorTextOf err =
     (case err of
        ErrorWith message \<Rightarrow> message
      | NotAnError \<Rightarrow> js ''An unknown error occurred.'')"

definition frozenInTime :: Thrown where
  "frozenInTime =
     ErrorWith (js ''The world seems to be frozen in time. Please try your action again.'')"

definition narratorEntry :: "jsstring \<Rightarrow> StoryEntry" where
  "narratorEntry t =
     \<lparr>entry_type = Narrator, entry_text = t, characterName = None, imageUrl = None,
      imageIsLoading = None\<rparr>"

definition playerEntry :: "jsstring \<Rightarrow> StoryEntry" where
  "playerEntry t =
     \<lparr>entry_type = Player, entry_text = t, characterName = None, imageUrl = None,
      imageIsLoading = None\<rparr>"

text \<open>
  The preview of one chunk: group 1 of the pattern, when there is a match and the group
  is not empty, decoded as the JSON string literal it is the inside of. \<open>None\<close> when the
  buffer gives no preview; the SyntaxError of the decoding is swallowed there.
\<close>

definition narrativePreview :: "jsstring \<Rightarrow> jsstring option" where
  "narrativePreview accumulatedJson =
     (case narrative_match accumulatedJson of
        None \<Rightarrow> None
      | Some g \<Rightarrow>
          if g = [] then None
          else (case JSON_parse ([34] @ g @ [34]) of
                  Some (JString narrativeText) \<Rightarrow> Some narrativeText
                | _ \<Rightarrow> None))"

definition showPreview :: "nat \<Rightarrow> jsstring \<Rightarrow> GameState \<Rightarrow> GameState" where
  "showPreview narratorEntryIndex narrativeText prev =
     (let updatedLog = storyLog prev
      in if narratorEntryIndex < length updatedLog
         then prev\<lparr>storyLog := updatedLog
                [narratorEntryIndex := (updatedLog ! narratorEntryIndex)\<lparr>entry_text := narrativeText\<rparr>]\<rparr>
         else prev)"

fun consumeStream :: "nat \<Rightarrow> jsstring list \<Rightarrow> jsstring \<times> GameState \<Rightarrow> jsstring \<times> GameState" where
  "consumeStream narratorEntryIndex [] (accumulatedJson, g) = (accumulatedJson, g)"
| "consumeStream narratorEntryIndex (chunk # rest) (accumulatedJson, g) =
     (let buffer = accumulatedJson @ chunk
      in consumeStream narratorEntryIndex rest
           (buffer,
            case narrativePreview buffer of
              Some narrativeText \<Rightarrow> showPreview narratorEntryIndex narrativeText g
            | None \<Rightarrow> g))"

text \<open>
  The assignment \<^verbatim>\<open>xs[i] = v\<close> to a JavaScript array overwrites the element at an index
  inside the array and appends at the index that is its length. At a larger index it
  would leave holes, which a list cannot hold: \<open>executeAction\<close> keeps the index inside
  the log, and the turn with image callbacks below is \<open>None\<close> there.
\<close>

definition assignAt :: "nat \<Rightarrow> 'a \<Rightarrow> 'a list \<Rightarrow> 'a list" where
  "assignAt i v xs = (if i < length xs then xs[i := v] else xs @ [v])"

text \<open>The state update of a parsed response.\<close>

definition reconcile :: "nat \<Rightarrow> GeminiResponse \<Rightarrow> GameState \<Rightarrow> GameState" where
  "reconcile narratorEntryIndex response prev =
     (let finalLog =
            assignAt narratorEntryIndex (narratorEntry (narrative response)) (storyLog prev);
          withDialogue =
            (case dialogue response of
               Some ds \<Rightarrow>
                 finalLog @ map (\<lambda>d. \<lparr>entry_type = Narrator, entry_text = line_text d,
                                      characterName = Some (speaker d), imageUrl = None,
                                      imageIsLoading = None\<rparr>) ds
             | None \<Rightarrow> finalLog);
          updatedQuests = reconcileQuests response (quests prev);
          updatedCharacter =
            applyXp response (applyStats response (character (scenario prev)))
      in prev\<lparr>storyLog := withDialogue,
               currentLocation := newLocation response,
               inventory := updatedInventory response,
               objective := newObjective response,
               quests := updatedQuests,
               isGameOver := resp_isGameOver response,
               gameOverMessage := resp_gameOverMessage response,
               scenario := (scenario prev)\<lparr>character := updatedCharacter\<rparr>\<rparr>)"

definition commitResponse :: "nat \<Rightarrow> GeminiResponse \<Rightarrow> Screen \<Rightarrow> Screen" where
  "commitResponse narratorEntryIndex response s =
     (let prev = gameState s;
          s1 = s\<lparr>gameState := reconcile narratorEntryIndex response prev,
                 isLevelingUp :=
                   (levelUpTriggered response
                      (applyStats response (character (scenario prev))) \<or> isLevelingUp s)\<rparr>;
          s2 = (case loreUpdate response of
                  Some u \<Rightarrow> s1\<lparr>proposedUpdate := Some u\<rparr>
                | None \<Rightarrow> s1)
      in if requestImageGeneration response = Some True \<and> \<not> resp_isGameOver response
         then s2\<lparr>gameState := (gameState s2)\<lparr>storyLog := storyLog (gameState s2) @ [placeholderEntry]\<rparr>\<rparr>
         else s2)"

definition showError :: "nat \<Rightarrow> Thrown \<Rightarrow> Screen \<Rightarrow> Screen" where
  "showError narratorEntryIndex err s =
     (let errorText = errorTextOf err;
          prev = gameState s;
          updatedLog = storyLog prev
      in if narratorEntryIndex < length updatedLog
         then s\<lparr>gameState := prev\<lparr>storyLog := updatedLog[narratorEntryIndex := narratorEntry errorText]\<rparr>\<rparr>
         else s)"

definition resolveTurn :: "Engine \<Rightarrow> Gateway \<Rightarrow> nat \<Rightarrow> Screen \<Rightarrow> Screen option" where
  "resolveTurn engine gateway narratorEntryIndex s =
     (case gateway of
        CallFails \<Rightarrow> Some (showError narratorEntryIndex frozenInTime s)
      | Streams chunks interruption \<Rightarrow>
          (case consumeStream narratorEntryIndex chunks ([], gameState s) of
             (accumulatedJson, g) \<Rightarrow>
               (case interruption of
                  Some err \<Rightarrow> Some (showError narratorEntryIndex err (s\<lparr>gameState := g\<rparr>))
                | None \<Rightarrow>
                    (case JSON_parse accumulatedJson of
                       None \<Rightarrow>
                         Some (showError narratorEntryIndex
                                 (ErrorWith (syntaxErrorMessage engine accumulatedJson))
                                 (s\<lparr>gameState := g\<rparr>))
                     | Some document \<Rightarrow>
                         (case asResponse engine document of
                            None \<Rightarrow> None
                          | Some response \<Rightarrow>
                              Some (commitResponse narratorEntryIndex response
                                      (s\<lparr>gameState := g\<rparr>)))))))"

definition blocked :: "Screen \<Rightarrow> bool" where
  "blocked s =
     (isLoading s \<or> isGameOver (gameState s) \<or> proposedUpdate s \<noteq> None \<or> isLevelingUp s)"

definition executeAction :: "Engine \<Rightarrow> Gateway \<Rightarrow> jsstring \<Rightarrow> Screen \<Rightarrow> Screen option" where
  "executeAction engine gateway action s =
     (if trim action = [] \<or> blocked s then Some s
      else
        (let newPlayerEntry = playerEntry action;
             narratorEntryIndex = length (storyLog (gameState s)) + 1;
             started = s\<lparr>gameState := (gameState s)
                            \<lparr>storyLog := storyLog (gameState s) @ [newPlayerEntry, narratorEntry []]\<rparr>,
                          playerInput := [],
                          isLoading := True\<rparr>
         in map_option (\<lambda>settled. settled\<lparr>isLoading := False\<rparr>)
              (resolveTurn engine gateway narratorEntryIndex started)))"

definition handleSubmit :: "Engine \<Rightarrow> Gateway \<Rightarrow> Screen \<Rightarrow> Screen option" where
  "handleSubmit engine gateway s = executeAction engine gateway (playerInput s) s"

definition handleUseItem :: "Engine \<Rightarrow> Gateway \<Rightarrow> Item \<Rightarrow> Screen \<Rightarrow> Screen option" where
  "handleUseItem engine gateway item s =
     (if \<not> usable item \<or> blocked s then Some s
      else executeAction engine gateway (js ''use \"'' @ item_name item @ js ''\"'') s)"

subsection \<open>A turn with image callbacks in between\<close>

text \<open>
  \<^verbatim>\<open>executeAction\<close> is asynchronous: it waits for the gateway to open the stream and then
  for every chunk. The input is not disabled while an image request is pending, so the
  callback of such a request, which attaches the image to the entries still loading or
  removes them, can run while the turn waits. \<open>executeAction\<close> above is the turn during
  which no callback runs. Here the course of a turn lists the callbacks among the chunks;
  \<^verbatim>\<open>narratorEntryIndex\<close> is still computed once, when the turn starts. Where the response
  would be assigned beyond the end of the log the turn is \<open>None\<close>, as for a document
  that is not a \<^verbatim>\<open>GeminiResponse\<close>.
\<close>

datatype ImageEvent = ImageArrives jsstring | ImageBreaks

fun imageCallback :: "ImageEvent \<Rightarrow> Screen \<Rightarrow> Screen" where
  "imageCallback (ImageArrives url) s = imageReady url s"
| "imageCallback ImageBreaks s = imageFailed s"

datatype Moment = Chunk jsstring | Callback ImageEvent

datatype Course = Refused "ImageEvent list" | Streamed "Moment list" "Thrown option"

fun awaitStream :: "nat \<Rightarrow> Moment list \<Rightarrow> jsstring \<times> Screen \<Rightarrow> jsstring \<times> Screen" where
  "awaitStream narratorEntryIndex [] (accumulatedJson, s) = (accumulatedJson, s)"
| "awaitStream narratorEntryIndex (Chunk chunk # rest) (accumulatedJson, s) =
     (let buffer = accumulatedJson @ chunk
      in awaitStream narratorEntryIndex rest
           (buffer,
            case narrativePreview buffer of
              Some narrativeText \<Rightarrow>
                s\<lparr>gameState := showPreview narratorEntryIndex narrativeText (gameState s)\<rparr>
            | None \<Rightarrow> s))"
| "awaitStream narratorEntryIndex (Callback e # rest) (accumulatedJson, s) =
     awaitStream narratorEntryIndex rest (accumulatedJson, imageCallback e s)"

definition resolveTurn_interleaved :: "Engine \<Rightarrow> Course \<Rightarrow> nat \<Rightarrow> Screen \<Rightarrow> Screen option" where
  "resolveTurn_interleaved engine course narratorEntryIndex s =
     (case course of
        Refused callbacks \<Rightarrow>
          Some (showError narratorEntryIndex frozenInTime
                  (foldl (\<lambda>s1 e. imageCallback e s1) s callbacks))
      | Streamed moments interruption \<Rightarrow>
          (case awaitStream narratorEntryIndex moments ([], s) of
             (accumulatedJson, s1) \<Rightarrow>
               (case interruption of
                  Some err \<Rightarrow> Some (showError narratorEntryIndex err s1)
                | None \<Rightarrow>
                    (case JSON_parse accumulatedJson of
                       None \<Rightarrow>
                         Some (showError narratorEntryIndex
                                 (ErrorWith (syntaxErrorMessage engine accumulatedJson)) s1)
                     | Some document \<Rightarrow>
                         (case asResponse engine document of
                            None \<Rightarrow> None
                          | Some response \<Rightarrow>
                              if narratorEntryIndex \<le> length (storyLog (gameState s1))
                              then Some (commitResponse narratorEntryIndex response s1)
                              else None)))))"

definition executeAction_interleaved ::
  "Engine \<Rightarrow> Course \<Rightarrow> jsstring \<Rightarrow> Screen \<Rightarrow> Screen option" where
  "executeAction_interleaved engine course action s =
     (if trim action = [] \<or> blocked s then Some s
      else
        (let newPlayerEntry = playerEntry action;
             narratorEntryIndex = length (storyLog (gameState s)) + 1;
             started = s\<lparr>gameState := (gameState s)
                            \<lparr>storyLog := storyLog (gameState s) @ [newPlayerEntry, narratorEntry []]\<rparr>,
                          playerInput := [],
                          isLoading := True\<rparr>
         in map_option (\<lambda>settled. settled\<lparr>isLoading := False\<rparr>)
              (resolveTurn_interleaved engine course narratorEntryIndex started)))"

text \<open>The course of a turn during which no callback runs.\<close>

fun plain :: "Gateway \<Rightarrow> Course" where
  "plain CallFails = Refused []"
| "plain (Streams chunks interruption) = Streamed (map Chunk chunks) interruption"

subsection \<open>Everything that can happen to the screen\<close>

datatype Event =
    Act jsstring Gateway
  | UseItem Item Gateway
  | AcceptUpdate
  | RejectUpdate
  | LevelUpConfirm int int int
  | ImageReady jsstring
  | ImageFailed

fun fire :: "Engine \<Rightarrow> Event \<Rightarrow> Screen \<Rightarrow> Screen option" where
  "fire engine (Act action gateway) s = executeAction engine gateway action s"
| "fire engine (UseItem item gateway) s = handleUseItem engine gateway item s"
| "fire engine AcceptUpdate s = Some (handleAcceptUpdate s)"
| "fire engine RejectUpdate s = Some (handleRejectUpdate s)"
| "fire engine (LevelUpConfirm h m st) s = Some (handleLevelUpConfirm h m st s)"
| "fire engine (ImageReady url) s = Some (imageReady url s)"
| "fire engine ImageFailed s = Some (imageFailed s)"

fun run :: "Engine \<Rightarrow> Event list \<Rightarrow> Screen \<Rightarrow> Screen option" where
  "run engine [] s = Some s"
| "run engine (e # es) s =
     (case fire engine e s of
        None \<Rightarrow> None
      | Some s' \<Rightarrow> run engine es s')"

section \<open>LoreGenerator: factions and their sigils\<close>

text \<open>
  \<^verbatim>\<open>generateSigilImage\<close> asks the image service for a sigil. The service throws or answers
  with parts, each with or without inline image data (base64 text). Whatever goes wrong
  is caught inside the function, which then returns the empty string.
\<close>

datatype ImageReply = ImageCallThrows | ImageParts "jsstring option list"

definition generateSigilImage :: "ImageReply \<Rightarrow> jsstring" where
  "generateSigilImage reply =
     (case reply of
        ImageCallThrows \<Rightarrow> []
      | ImageParts parts \<Rightarrow>
          (case List.find (\<lambda>part. part \<noteq> None) parts of
             Some (Some base64ImageBytes) \<Rightarrow> js ''data:image/png;base64,'' @ base64ImageBytes
           | _ \<Rightarrow> []))"

datatype GenerationStep =
  Inputs | FoundationReview | FactionsReview | SystemsReview | InhabitantsReview | Finalizing | Complete

record LoreGenerator =
  step :: GenerationStep
  builderFactions :: "Faction list option"
  gen_isLoading :: bool
  gen_error :: "jsstring option"
  progressMessage :: jsstring

datatype FactionsReply = FactionsFail Thrown | FactionsOk "Faction list"

text \<open>
  The sigil loop of \<^verbatim>\<open>handleAcceptFoundation\<close>, one call of the image service per faction
  in order (\<open>service i\<close> is the reply to call \<open>i\<close>); the faction with its sigil replaces
  every faction of that name in the builder.
\<close>

fun carveSigils ::
  "(nat \<Rightarrow> ImageReply) \<Rightarrow> nat \<Rightarrow> Faction list \<Rightarrow> Faction list option \<Rightarrow> Faction list option" where
  "carveSigils service i [] current = current"
| "carveSigils service i (faction # rest) current =
     (let updatedFaction = faction\<lparr>sigilImageUrl := generateSigilImage (service i)\<rparr>;
          updatedFactions =
            (case current of
               Some fs \<Rightarrow> map (\<lambda>f. if faction_name f = faction_name updatedFaction
                                    then updatedFaction else f) fs
             | None \<Rightarrow> [])
      in carveSigils service (Suc i) rest (Some updatedFactions))"

definition handleAcceptFoundation ::
  "FactionsReply \<Rightarrow> (nat \<Rightarrow> ImageReply) \<Rightarrow> LoreGenerator \<Rightarrow> LoreGenerator" where
  "handleAcceptFoundation reply service g =
     (case reply of
        FactionsFail err \<Rightarrow>
          g\<lparr>gen_error := Some (errorTextOf err), step := FoundationReview,
            gen_isLoading := False, progressMessage := []\<rparr>
      | FactionsOk generated \<Rightarrow>
          (let baseFactions = map (\<lambda>f. f\<lparr>sigilImageUrl := []\<rparr>) generated
           in g\<lparr>gen_error := None, step := FactionsReview,
                 builderFactions := carveSigils service 0 baseFactions (Some baseFactions),
                 gen_isLoading := False, progressMessage := []\<rparr>))"

text \<open>The \<^verbatim>\<open>disabled\<close> attribute of the button "Accept & Continue" of the factions review.\<close>

definition acceptFactionsDisabled :: "LoreGenerator \<Rightarrow> bool" where
  "acceptFactionsDisabled g =
     (gen_isLoading g \<or>
      (case builderFactions g of
         Some fs \<Rightarrow> list_ex (\<lambda>f. sigilImageUrl f = []) fs
       | None \<Rightarrow> True))"

section \<open>Auxiliary notions for the properties\<close>


function allTexts :: "Objective list \<Rightarrow> jsstring list" where
  "allTexts objs =
     concat (map (\<lambda>obj. otext obj #
                    (case subObjectives obj of None \<Rightarrow> [] | Some subs \<Rightarrow> allTexts subs)) objs)"
  by pat_completeness auto
termination
  by (relation "measure (size_list size)") (auto simp: subObjectives_smaller)

function pendingTexts :: "Objective list \<Rightarrow> jsstring list" where
  "pendingTexts objs =
     concat (map (\<lambda>obj. (if isCompleted obj then [] else [otext obj]) @
                    (case subObjectives obj of None \<Rightarrow> [] | Some subs \<Rightarrow> pendingTexts subs)) objs)"
  by pat_completeness auto
termination
  by (relation "measure (size_list size)") (auto simp: subObjectives_smaller)

declare allTexts.simps [simp del] pendingTexts.simps [simp del]


text \<open>
  What consuming a stream may do to a game state: nothing, or set the text of the entry at
  the index of the narrator entry.
\<close>

definition logTouched :: "nat \<Rightarrow> GameState \<Rightarrow> GameState \<Rightarrow> bool" where
  "logTouched i g g' = (g' = g \<or> g' = showPreview i (entry_text (storyLog g' ! i)) g)"

text \<open>
  Deduplication as the specification words it: a lore update is already known when the
  lore has a location or a character of exactly its name, or a knowledge line of exactly
  its content, the name and the description joined by a colon and a space; merging
  appends the entry to the list of its type.
\<close>

definition alreadyKnown :: "LoreUpdate \<Rightarrow> Lore \<Rightarrow> bool" where
  "alreadyKnown u l =
     (case lore_type u of
        OfLocation \<Rightarrow> lore_name u \<in> set (map disc_name (locations l))
      | OfCharacter \<Rightarrow> lore_name u \<in> set (map disc_name (characters l))
      | OfKnowledge \<Rightarrow> lore_name u @ js '': '' @ lore_description u \<in> set (knowledge l))"

definition merged :: "LoreUpdate \<Rightarrow> Lore \<Rightarrow> Lore" where
  "merged u l =
     (case lore_type u of
        OfLocation \<Rightarrow>
          l\<lparr>locations := locations l @
               [\<lparr>disc_name = lore_name u, disc_description = lore_description u\<rparr>]\<rparr>
      | OfCharacter \<Rightarrow>
          l\<lparr>characters := characters l @
               [\<lparr>disc_name = lore_name u, disc_description = lore_description u\<rparr>]\<rparr>
      | OfKnowledge \<Rightarrow>
          l\<lparr>knowledge := knowledge l @ [lore_name u @ js '': '' @ lore_description u]\<rparr>)"

text \<open>The events that submit a player action.\<close>

fun isAction :: "Event \<Rightarrow> bool" where
  "isAction (Act action gateway) = True"
| "isAction (UseItem item gateway) = True"
| "isAction e = False"

subsection \<open>A small world for concrete runs\<close>

definition demoLore :: Lore where
  "demoLore =
     \<lparr>worldName = js ''Aldermoor'', coreConcept = js ''A drowned kingdom'',
      factions = [], timeline = [],
      locations = [\<lparr>disc_name = js ''Old Mill'', disc_description = js ''A ruined mill''\<rparr>],
      characters = [], knowledge = [js ''Tides: They obey the moon''], secrets = [],
      cosmology = \<lparr>creationMyth = [], deities = []\<rparr>,
      magicSystem = \<lparr>magic_name = [], magic_description = [], rules = []\<rparr>,
      races = [], creatures = [], historicalFigures = []\<rparr>"

definition demoCharacter :: Character where
  "demoCharacter =
     \<lparr>char_name = js ''Mira'', backstory = js ''A ferryman'',
      health = 70, maxHealth = 100, mana = 20, maxMana = 50, stamina = 60, maxStamina = 80,
      level = 1, xp = 95, xpToNextLevel = 100\<rparr>"

definition demoScenario :: Scenario where
  "demoScenario =
     \<lparr>character = demoCharacter,
      setting = \<lparr>setting_name = js ''Harbor'', setting_description = js ''Fog on the quay''\<rparr>,
      goal = js ''Lift the curse'', scenario_objective = js ''Find the ferry''\<rparr>"

definition demoScreen :: Screen where
  "demoScreen = initialScreen demoLore demoScenario"

definition demoResponse :: GeminiResponse where
  "demoResponse =
     \<lparr>narrative = js ''The fog parts.'', dialogue = None, newLocation = js ''Harbor'',
      updatedInventory = [], newObjective = js ''Find the ferry'', newQuest = None,
      questUpdate = None, resp_isGameOver = False, resp_gameOverMessage = [],
      characterUpdate = None, loreUpdate = None, requestImageGeneration = None\<rparr>"

definition xpResponse :: "int \<Rightarrow> GeminiResponse" where
  "xpResponse amount =
     demoResponse\<lparr>characterUpdate :=
       Some \<lparr>upd_health = None, upd_mana = None, upd_stamina = None, xpGained = Some amount\<rparr>\<rparr>"

text \<open>
  An engine that reads every parsed document as the given response, a buffer that parses,
  an action, and the screen in the middle of the turn of that action.
\<close>

definition scriptedEngine :: "GeminiResponse \<Rightarrow> Engine" where
  "scriptedEngine response =
     \<lparr>syntaxErrorMessage = (\<lambda>buffer. js ''Unexpected end of JSON input''),
      asResponse = (\<lambda>document. Some response)\<rparr>"

definition emptyObject :: jsstring where "emptyObject = js ''{}''"

definition lookAction :: jsstring where "lookAction = js ''look''"

definition demoTurnStarted :: Screen where
  "demoTurnStarted =
     demoScreen\<lparr>gameState := (gameState demoScreen)
                   \<lparr>storyLog := storyLog (gameState demoScreen) @
                      [playerEntry lookAction, narratorEntry []]\<rparr>,
                 playerInput := [], isLoading := True\<rparr>"

text \<open>The screen right after it was mounted, while the image of the setting is awaited.\<close>

definition awaitingImage :: Screen where
  "awaitingImage = generateInitialImage demoScreen"

definition gameOverScreen :: Screen where
  "gameOverScreen =
     demoScreen\<lparr>gameState := (gameState demoScreen)
                   \<lparr>isGameOver := True, gameOverMessage := js ''The tide took you.''\<rparr>\<rparr>"

definition demoPotion :: Item where
  "demoPotion =
     \<lparr>item_name = js ''Potion'', item_description = js ''Red and warm'', rarity = Common,
      item_type = Consumable, usable = True,
      effects = [\<lparr>stat = Health, effect_value = 20\<rparr>]\<rparr>"

text \<open>The three fragments of the streamed document \<^verbatim>\<open>{"narrative":"Hello world","newLocation":"X"}\<close>.\<close>

definition fragment1 :: jsstring where "fragment1 = js ''{\"narrative\":\"Hel''"

definition fragment2 :: jsstring where "fragment2 = js ''lo wor''"

definition fragment3 :: jsstring where "fragment3 = js ''ld\",\"newLocation\":\"X\"}''"







text \<open>Lore updates: a location the lore already has, and a new one.\<close>

definition millUpdate :: LoreUpdate where
  "millUpdate = \<lparr>lore_type = OfLocation, lore_name = js ''Old Mill'',
                  lore_description = js ''Seen again''\<rparr>"

definition lighthouseUpdate :: LoreUpdate where
  "lighthouseUpdate = \<lparr>lore_type = OfLocation, lore_name = js ''Lighthouse'',
                        lore_description = js ''A dark tower''\<rparr>"

text \<open>
  Three factions as the faction generator returns them, an image service whose second call
  fails, and the lore generator at the moment the foundation is accepted.
\<close>

definition ironHand :: Faction where
  "ironHand =
     \<lparr>faction_name = js ''Iron Hand'', faction_description = js ''Smiths'', leader = js ''Orla'',
      headquarters = js ''The Forge'', ideology = js ''Order'', relationships = js ''None'',
      sigilImageUrl = []\<rparr>"

definition tideWardens :: Faction where
  "tideWardens =
     \<lparr>faction_name = js ''Tide Wardens'', faction_description = js ''Sailors'', leader = js ''Brin'',
      headquarters = js ''The Pier'', ideology = js ''Freedom'', relationships = js ''None'',
      sigilImageUrl = []\<rparr>"

definition ashCircle :: Faction where
  "ashCircle =
     \<lparr>faction_name = js ''Ash Circle'', faction_description = js ''Mages'', leader = js ''Vey'',
      headquarters = js ''The Spire'', ideology = js ''Knowledge'', relationships = js ''None'',
      sigilImageUrl = []\<rparr>"

definition secondCallFails :: "nat \<Rightarrow> ImageReply" where
  "secondCallFails i = (if i = 1 then ImageCallThrows else ImageParts [None, Some (js ''QUJD'')])"

definition foundationAccepted :: LoreGenerator where
  "foundationAccepted =
     \<lparr>step = FoundationReview, builderFactions = None, gen_isLoading = False,
      gen_error = None, progressMessage = []\<rparr>"

section \<open>Properties of the parser\<close>

text \<open>
  Every parser consumes at least one character of its input. The two length tests inside
  \<open>json_elements\<close> and \<open>json_members\<close>, which the termination proof relies on, therefore
  never fail: \<open>None\<close> is a SyntaxError only.
\<close>

lemma strip_shorter: "strip p cs = Some rest \<Longrightarrow> p \<noteq> [] \<Longrightarrow> length rest < length cs"
  by (cases p; cases cs) (auto simp: strip_def split: if_splits)

lemma digits1_shorter: "digits1 cs = Some (ds, rest) \<Longrightarrow> length rest < length cs"
  unfolding digits1_def
  by (cases cs) (auto split: if_splits intro: le_less_trans [OF length_dropWhile_le])

lemma json_int_shorter: "json_int cs = Some (ds, rest) \<Longrightarrow> length rest < length cs"
  unfolding json_int_def
  by (cases cs) (auto split: if_splits intro: le_less_trans [OF length_dropWhile_le])

lemma json_frac_shorter: "json_frac cs = Some (ds, rest) \<Longrightarrow> length rest \<le> length cs"
  unfolding json_frac_def
  by (cases cs) (auto split: if_splits dest!: digits1_shorter)

lemma json_exp_shorter: "json_exp cs = Some (ds, rest) \<Longrightarrow> length rest \<le> length cs"
  unfolding json_exp_def
  by (cases cs) (auto split: if_splits list.splits dest!: digits1_shorter)

lemma json_number_shorter: "json_number cs = Some (n, rest) \<Longrightarrow> length rest < length cs"
  unfolding json_number_def
  by (cases cs)
     (auto split: if_splits option.splits prod.splits
           dest!: json_int_shorter json_frac_shorter json_exp_shorter)

lemma json_scalar_shorter: "json_scalar cs = Some (v, rest) \<Longrightarrow> length rest < length cs"
  unfolding json_scalar_def
  by (cases cs)
     (auto split: if_splits dest!: json_string_shorter json_number_shorter strip_shorter)

lemma json_value_shorter:
  "json_value cs = Some (v, rest) \<Longrightarrow> length rest < length cs"
  "json_elements acc cs = Some (v, rest) \<Longrightarrow> length rest < length cs"
  "json_members kvs cs = Some (v, rest) \<Longrightarrow> length rest < length cs"
proof (induction cs and acc cs and kvs cs arbitrary: v rest and v rest and v rest
       rule: json_value_json_elements_json_members.induct)
  case (1 cs)
  show ?case
  proof (cases "dropWhile json_ws cs")
    case Nil
    with "1.prems" show ?thesis by (simp add: json_value.simps)
  next
    case (Cons c r)
    then have r: "length r < length cs" by (rule dropWhile_Cons_shorter)
    have cr: "length (c # r) \<le> length cs"
      using length_dropWhile_le [of json_ws cs] Cons by simp
    show ?thesis
    proof (cases "dropWhile json_ws r")
      case Nil
      with "1.prems" Cons cr show ?thesis
        by (auto simp: json_value.simps simp del: dropWhile_eq_Nil_conv
                 split: if_splits dest!: json_scalar_shorter)
    next
      case inner: (Cons c' r')
      then have r': "length r' < length r" by (rule dropWhile_Cons_shorter)
      consider (arr) "c = 91" | (obj) "c \<noteq> 91" "c = 123" | (sc) "c \<noteq> 91" "c \<noteq> 123" by blast
      then show ?thesis
      proof cases
        case arr
        show ?thesis
        proof (cases "c' = 93")
          case True
          with "1.prems" Cons inner arr r r' show ?thesis by (simp add: json_value.simps)
        next
          case False
          with "1.prems" Cons inner arr have "json_elements [] r = Some (v, rest)"
            by (simp add: json_value.simps)
          from "1.IH"(1) [OF Cons arr inner False this] r show ?thesis by simp
        qed
      next
        case obj
        show ?thesis
        proof (cases "c' = 125")
          case True
          with "1.prems" Cons inner obj r r' show ?thesis by (simp add: json_value.simps)
        next
          case False
          with "1.prems" Cons inner obj have "json_members [] r = Some (v, rest)"
            by (simp add: json_value.simps)
          from "1.IH"(2) [OF Cons obj inner False this] r show ?thesis by simp
        qed
      next
        case sc
        with "1.prems" Cons have "json_scalar (c # r) = Some (v, rest)"
          by (simp add: json_value.simps)
        from json_scalar_shorter [OF this] cr show ?thesis by simp
      qed
    qed
  qed
next
  case (2 acc cs)
  from "2.prems" obtain w r where w: "json_value cs = Some (w, r)"
    by (subst (asm) json_elements.simps) (auto split: option.splits)
  from "2.IH"(1) [OF w] have r: "length r < length cs" .
  show ?case
  proof (cases "dropWhile json_ws r")
    case Nil
    with "2.prems" w r show ?thesis
      by (subst (asm) json_elements.simps) (simp del: dropWhile_eq_Nil_conv)
  next
    case (Cons c r')
    then have r': "length r' < length r" by (rule dropWhile_Cons_shorter)
    show ?thesis
    proof (cases "c = 44")
      case True
      with "2.prems" w r Cons have "json_elements (acc @ [w]) r' = Some (v, rest)"
        by (subst (asm) json_elements.simps) simp
      from "2.IH"(2) [OF w refl r Cons True this] r r' show ?thesis by simp
    next
      case False
      with "2.prems" w r Cons r' show ?thesis
        by (subst (asm) json_elements.simps) (auto split: if_splits)
    qed
  qed
next
  case (3 kvs cs)
  from "3.prems" obtain q r where q: "dropWhile json_ws cs = q # r"
    by (subst (asm) json_members.simps) (auto split: list.splits)
  then have lr: "length r < length cs" by (rule dropWhile_Cons_shorter)
  from "3.prems" q have q34: "q = 34"
    by (subst (asm) json_members.simps) (auto split: if_splits)
  from "3.prems" q q34 obtain k r1 where k: "json_string r = Some (k, r1)"
    by (subst (asm) json_members.simps) (auto split: option.splits)
  from json_string_shorter [OF k] have lr1: "length r1 \<le> length r" by simp
  from "3.prems" q q34 k obtain colon r2 where c: "dropWhile json_ws r1 = colon # r2"
    by (subst (asm) json_members.simps) (auto split: list.splits)
  then have lr2: "length r2 < length r1" by (rule dropWhile_Cons_shorter)
  from "3.prems" q q34 k c have c58: "colon = 58"
    by (subst (asm) json_members.simps) (auto split: if_splits)
  from "3.prems" q q34 k c c58 obtain w r3 where w: "json_value r2 = Some (w, r3)"
    by (subst (asm) json_members.simps) (auto split: option.splits)
  from "3.IH"(1) [OF q q34 k refl c c58 w] have lr3: "length r3 < length r2" .
  show ?case
  proof (cases "dropWhile json_ws r3")
    case Nil
    with "3.prems" q q34 k c c58 w lr3 show ?thesis
      by (subst (asm) json_members.simps) (simp del: dropWhile_eq_Nil_conv)
  next
    case (Cons d r4)
    then have lr4: "length r4 < length r3" by (rule dropWhile_Cons_shorter)
    show ?thesis
    proof (cases "d = 44")
      case True
      with "3.prems" q q34 k c c58 w lr3 Cons
      have "json_members (kvs @ [(k, w)]) r4 = Some (v, rest)"
        by (subst (asm) json_members.simps) simp
      from "3.IH"(2) [OF q q34 k refl c c58 w refl lr3 Cons True this] lr lr1 lr2 lr3 lr4
      show ?thesis by simp
    next
      case False
      with "3.prems" q q34 k c c58 w lr3 Cons lr lr1 lr2 lr4 show ?thesis
        by (subst (asm) json_members.simps) (auto split: if_splits)
    qed
  qed
qed

section \<open>Properties of the objective tree\<close>

lemma update_Nil [simp]: "updateObjectivesRecursively [] t = []"
  by (simp add: updateObjectivesRecursively.simps)



lemma areAll_iff:
  "areAllObjectivesComplete objs \<longleftrightarrow>
   (\<forall>obj \<in> set objs. isCompleted obj \<and>
      (\<forall>subs. subObjectives obj = Some subs \<longrightarrow> areAllObjectivesComplete subs))"
  by (subst areAllObjectivesComplete.simps) (auto simp: list_all_iff split: option.splits)

lemma areAll_Nil [simp]: "areAllObjectivesComplete []"
  by (subst areAll_iff) simp

lemma areAll_Cons [simp]:
  "areAllObjectivesComplete (Objective tx c subs # rest) \<longleftrightarrow>
   c \<and> (case subs of None \<Rightarrow> True | Some ss \<Rightarrow> areAllObjectivesComplete ss) \<and>
   areAllObjectivesComplete rest"
  by (simp add: areAllObjectivesComplete.simps [of "Objective tx c subs # rest"]
                areAllObjectivesComplete.simps [of rest] split: option.splits)










lemma applyQuestUpdate_title [simp]: "title (applyQuestUpdate u q) = title q"
  by (simp add: applyQuestUpdate_def Let_def)



lemma quests_reconcile [simp]:
  "quests (reconcile i r g) = reconcileQuests r (quests g)"
  by (simp add: reconcile_def Let_def)

lemma allTexts_Nil [simp]: "allTexts [] = []"
  by (subst allTexts.simps) simp

lemma allTexts_Cons [simp]:
  "allTexts (Objective tx c subs # rest) =
     tx # (case subs of None \<Rightarrow> [] | Some ss \<Rightarrow> allTexts ss) @ allTexts rest"
  by (simp add: allTexts.simps [of "Objective tx c subs # rest"] allTexts.simps [of rest]
           split: option.splits)

lemma pendingTexts_Nil [simp]: "pendingTexts [] = []"
  by (subst pendingTexts.simps) simp

lemma pendingTexts_Cons [simp]:
  "pendingTexts (Objective tx c subs # rest) =
     (if c then [] else [tx]) @
     (case subs of None \<Rightarrow> [] | Some ss \<Rightarrow> pendingTexts ss) @ pendingTexts rest"
  by (simp add: pendingTexts.simps [of "Objective tx c subs # rest"] pendingTexts.simps [of rest]
           split: option.splits)




lemma reconcileQuests_length:
  "length (reconcileQuests r qs) = length qs + (case newQuest r of None \<Rightarrow> 0 | Some q \<Rightarrow> 1)"
  by (simp add: reconcileQuests_def Let_def split: option.splits)

section \<open>Properties of a turn\<close>

lemma logTouched_iff:
  "logTouched i g g' \<longleftrightarrow> g' = g \<or> (\<exists>t. g' = showPreview i t g)"
proof -
  have "showPreview i t g = g \<or>
        showPreview i t g = showPreview i (entry_text (storyLog (showPreview i t g) ! i)) g" for t
    by (simp add: showPreview_def Let_def)
  then show ?thesis unfolding logTouched_def by metis
qed

lemma showPreview_twice: "showPreview i t (showPreview i t' g) = showPreview i t g"
  by (simp add: showPreview_def Let_def)

lemma consumeStream_result:
  "\<exists>g'. consumeStream i chunks (acc, g) = (acc @ concat chunks, g') \<and> logTouched i g g'"
proof (induction chunks arbitrary: acc g)
  case Nil
  show ?case by (simp add: logTouched_iff)
next
  case (Cons chunk rest)
  let ?g1 = "case narrativePreview (acc @ chunk) of
               Some narrativeText \<Rightarrow> showPreview i narrativeText g | None \<Rightarrow> g"
  from Cons [of "acc @ chunk" ?g1] obtain g' where
    g': "consumeStream i rest (acc @ chunk, ?g1) = (acc @ chunk @ concat rest, g')"
    and t: "logTouched i ?g1 g'" by auto
  have "logTouched i g g'"
    using t by (auto simp: logTouched_iff showPreview_twice split: option.splits)
  with g' show ?case by (simp add: Let_def)
qed

text \<open>
  The index of the narrator entry of a turn, computed before the two entries of the turn
  are appended, stays inside the story log while the stream is consumed: the assignment
  \<^verbatim>\<open>finalLog[narratorEntryIndex] = ...\<close> overwrites an entry and never extends the log.
\<close>

lemma narratorEntryIndex_in_range:
  assumes "consumeStream (Suc (length entries)) chunks
             ([], g\<lparr>storyLog := entries @ [newPlayerEntry, narratorEntry []]\<rparr>) = (buffer, g')"
  shows "Suc (length entries) < length (storyLog g')"
proof -
  let ?g0 = "g\<lparr>storyLog := entries @ [newPlayerEntry, narratorEntry []]\<rparr>"
  from consumeStream_result [of "Suc (length entries)" chunks "[]" ?g0] assms
  have "logTouched (Suc (length entries)) ?g0 g'" by auto
  then have "length (storyLog g') = length (storyLog ?g0)"
    by (auto simp: logTouched_iff showPreview_def Let_def split: if_splits)
  then show ?thesis by simp
qed

lemma showError_touched:
  assumes "logTouched i g g'" and "i < length (storyLog g)"
  shows "showError i err (s\<lparr>gameState := g'\<rparr>) =
         s\<lparr>gameState := g\<lparr>storyLog := (storyLog g)[i := narratorEntry (errorTextOf err)]\<rparr>\<rparr>"
  using assms by (auto simp: logTouched_iff showError_def showPreview_def Let_def)

lemma logTouched_fields:
  assumes "logTouched i g g'"
  shows "lore g' = lore g" "scenario g' = scenario g" "inventory g' = inventory g"
    "currentLocation g' = currentLocation g" "objective g' = objective g" "quests g' = quests g"
    "isGameOver g' = isGameOver g" "gameOverMessage g' = gameOverMessage g"
    "length (storyLog g') = length (storyLog g)"
  using assms by (auto simp: logTouched_iff showPreview_def Let_def split: if_splits)

lemmas json_eval = JSON_parse_def json_value.simps json_elements.simps json_members.simps
  json_scalar_def json_ws_def consTo_def strip_def json_number_def json_int_def json_frac_def
  json_exp_def digits1_def digit_def unescape_def hex4_def hexval_def

lemmas pattern_eval = narrativePreview_def narrative_at_def strip_def js_space_def
  line_terminator_def

lemma preview_fragment1: "narrativePreview fragment1 = None"
  by (simp add: fragment1_def pattern_eval)

lemma preview_fragment12: "narrativePreview (fragment1 @ fragment2) = None"
  by (simp add: fragment1_def fragment2_def pattern_eval)

lemma preview_fragment123:
  "narrativePreview (fragment1 @ fragment2 @ fragment3) = Some (js ''Hello world'')"
  by (simp add: fragment1_def fragment2_def fragment3_def pattern_eval json_eval)

lemma parse_fragment123:
  "JSON_parse (fragment1 @ fragment2 @ fragment3) =
     Some (JObject [(js ''narrative'', JString (js ''Hello world'')),
                    (js ''newLocation'', JString (js ''X''))])"
  by (simp add: fragment1_def fragment2_def fragment3_def json_eval)

lemma consume_fragments:
  "consumeStream i [fragment1] ([], g) = (fragment1, g)"
  "consumeStream i [fragment1, fragment2] ([], g) = (fragment1 @ fragment2, g)"
  "consumeStream i [fragment1, fragment2, fragment3] ([], g) =
     (fragment1 @ fragment2 @ fragment3, showPreview i (js ''Hello world'') g)"
  using preview_fragment1 preview_fragment12 preview_fragment123
  by (simp_all add: Let_def)

lemma executeAction_commits:
  assumes "trim action \<noteq> []" and "\<not> blocked s"
    and "JSON_parse (concat chunks) = Some document" and "asResponse engine document = Some r"
  shows "\<exists>g'. logTouched (Suc (length (storyLog (gameState s))))
                 ((gameState s)\<lparr>storyLog := storyLog (gameState s) @
                      [playerEntry action, narratorEntry []]\<rparr>) g' \<and>
              executeAction engine (Streams chunks None) action s =
                Some ((commitResponse (Suc (length (storyLog (gameState s)))) r
                         (s\<lparr>gameState := (gameState s)\<lparr>storyLog := storyLog (gameState s) @
                                [playerEntry action, narratorEntry []]\<rparr>,
                            playerInput := [], isLoading := True, gameState := g'\<rparr>))
                      \<lparr>isLoading := False\<rparr>)"
proof -
  let ?i = "Suc (length (storyLog (gameState s)))"
  let ?g0 = "(gameState s)\<lparr>storyLog := storyLog (gameState s) @ [playerEntry action, narratorEntry []]\<rparr>"
  let ?started = "s\<lparr>gameState := ?g0, playerInput := [], isLoading := True\<rparr>"
  obtain g' where c: "consumeStream ?i chunks ([], ?g0) = (concat chunks, g')"
    and t: "logTouched ?i ?g0 g'"
    using consumeStream_result [of ?i chunks "[]" ?g0] by auto
  have "resolveTurn engine (Streams chunks None) ?i ?started =
        Some (commitResponse ?i r (?started\<lparr>gameState := g'\<rparr>))"
    using c assms(3,4) by (simp add: resolveTurn_def)
  with assms(1,2) have "executeAction engine (Streams chunks None) action s =
        Some ((commitResponse ?i r (?started\<lparr>gameState := g'\<rparr>))\<lparr>isLoading := False\<rparr>)"
    by (simp add: executeAction_def Let_def)
  with t show ?thesis by blast
qed

lemma commitResponse_character:
  "character (scenario (gameState (commitResponse i r s))) =
   applyXp r (applyStats r (character (scenario (gameState s))))"
  by (simp add: commitResponse_def reconcile_def Let_def split: option.splits)

lemma commitResponse_isLevelingUp:
  "isLevelingUp (commitResponse i r s) =
   (levelUpTriggered r (applyStats r (character (scenario (gameState s)))) \<or> isLevelingUp s)"
  by (simp add: commitResponse_def Let_def split: option.splits)

lemma commitResponse_lore: "lore (gameState (commitResponse i r s)) = lore (gameState s)"
  by (simp add: commitResponse_def reconcile_def Let_def split: option.splits)

lemma commitResponse_proposedUpdate:
  "proposedUpdate (commitResponse i r s) =
   (case loreUpdate r of Some u \<Rightarrow> Some u | None \<Rightarrow> proposedUpdate s)"
  by (simp add: commitResponse_def Let_def split: option.splits)

lemma applyStats_xp [simp]:
  "xp (applyStats r c) = xp c" "xpToNextLevel (applyStats r c) = xpToNextLevel c"
  by (simp_all add: applyStats_def Let_def split: option.splits)

lemma demo_empty_object:
  "narrativePreview emptyObject = None" "JSON_parse emptyObject = Some (JObject [])"
  by (simp_all add: emptyObject_def pattern_eval json_eval)

lemma demo_accepts: "trim lookAction \<noteq> []" "\<not> blocked demoScreen"
  by (simp_all add: lookAction_def trim_def js_space_def blocked_def demoScreen_def
        initialScreen_def)

lemma demo_turn:
  "executeAction (scriptedEngine r) (Streams [emptyObject] None) lookAction demoScreen =
   Some ((commitResponse (Suc (length (storyLog (gameState demoScreen)))) r demoTurnStarted)
         \<lparr>isLoading := False\<rparr>)"
proof -
  let ?i = "Suc (length (storyLog (gameState demoScreen)))"
  have c: "consumeStream ?i [emptyObject] ([], gameState demoTurnStarted) =
           (emptyObject, gameState demoTurnStarted)"
    using demo_empty_object(1) by (simp add: Let_def)
  have "resolveTurn (scriptedEngine r) (Streams [emptyObject] None) ?i demoTurnStarted =
        Some (commitResponse ?i r demoTurnStarted)"
    by (simp add: resolveTurn_def c demo_empty_object(2) scriptedEngine_def
             del: consumeStream.simps)
  then show ?thesis
    using demo_accepts by (simp add: executeAction_def Let_def demoTurnStarted_def)
qed

lemma showError_lore: "lore (gameState (showError i err s)) = lore (gameState s)"
  by (simp add: showError_def Let_def)

lemma executeAction_lore:
  assumes "executeAction engine gateway action s = Some s'"
  shows "lore (gameState s') = lore (gameState s)"
proof (cases "trim action = [] \<or> blocked s")
  case True
  with assms show ?thesis by (auto simp: executeAction_def)
next
  case False
  let ?i = "length (storyLog (gameState s)) + 1"
  let ?g0 = "(gameState s)\<lparr>storyLog := storyLog (gameState s) @ [playerEntry action, narratorEntry []]\<rparr>"
  let ?started = "s\<lparr>gameState := ?g0, playerInput := [], isLoading := True\<rparr>"
  from assms False obtain z where z: "resolveTurn engine gateway ?i ?started = Some z"
    and s': "s' = z\<lparr>isLoading := False\<rparr>"
    by (auto simp: executeAction_def Let_def)
  have "lore (gameState z) = lore (gameState s)"
  proof (cases gateway)
    case CallFails
    with z show ?thesis by (auto simp: resolveTurn_def showError_lore)
  next
    case (Streams chunks interruption)
    obtain g' where c: "consumeStream ?i chunks ([], ?g0) = (concat chunks, g')"
      and t: "logTouched ?i ?g0 g'"
      using consumeStream_result [of ?i chunks "[]" ?g0] by auto
    from logTouched_fields(1) [OF t] have l: "lore g' = lore (gameState s)" by simp
    from z Streams c l show ?thesis
      by (auto simp: resolveTurn_def showError_lore commitResponse_lore
               simp del: consumeStream.simps split: option.splits)
  qed
  with s' show ?thesis by simp
qed

lemma fire_when_over:
  assumes "isGameOver (gameState s)"
  shows "\<exists>s'. fire engine e s = Some s' \<and> isGameOver (gameState s') \<and> (isAction e \<longrightarrow> s' = s)"
  using assms
  by (cases e)
     (simp_all add: executeAction_def handleUseItem_def blocked_def handleAcceptUpdate_def
        handleRejectUpdate_def handleLevelUpConfirm_def imageReady_def imageFailed_def Let_def
        split: option.splits)

lemma run_when_over:
  assumes "isGameOver (gameState s)"
  shows "(\<exists>s'. run engine events s = Some s' \<and> isGameOver (gameState s')) \<and>
         run engine events s = run engine (filter (\<lambda>e. \<not> isAction e) events) s"
  using assms
proof (induction events arbitrary: s)
  case Nil
  then show ?case by simp
next
  case (Cons e events)
  from fire_when_over [OF Cons.prems, of engine e] obtain s1 where
    f: "fire engine e s = Some s1" and o: "isGameOver (gameState s1)"
    and a: "isAction e \<longrightarrow> s1 = s" by blast
  from Cons.IH [OF o] obtain s2 where
    r: "run engine events s1 = Some s2" and o2: "isGameOver (gameState s2)"
    and q: "run engine events s1 = run engine (filter (\<lambda>e. \<not> isAction e) events) s1"
    by blast
  from f r have h1: "run engine (e # events) s = Some s2" by simp
  have h2: "run engine (filter (\<lambda>e. \<not> isAction e) (e # events)) s =
            run engine (filter (\<lambda>e. \<not> isAction e) events) s1"
  proof (cases "isAction e")
    case True
    with a show ?thesis by simp
  next
    case False
    with f show ?thesis by simp
  qed
  from h1 o2 have "\<exists>s'. run engine (e # events) s = Some s' \<and> isGameOver (gameState s')"
    by blast
  moreover from h1 h2 r q
  have "run engine (e # events) s = run engine (filter (\<lambda>e. \<not> isAction e) (e # events)) s"
    by (simp only:)
  ultimately show ?case by blast
qed

subsection \<open>Turns with and without image callbacks\<close>

text \<open>
  A course without callbacks is the turn of \<open>executeAction\<close>.
\<close>

lemma awaitStream_plain:
  "awaitStream i (map Chunk chunks) (acc, s) =
     (fst (consumeStream i chunks (acc, gameState s)),
      s\<lparr>gameState := snd (consumeStream i chunks (acc, gameState s))\<rparr>)"
proof (induction chunks arbitrary: acc s)
  case Nil
  show ?case by simp
next
  case (Cons chunk rest)
  show ?case
    by (cases "narrativePreview (acc @ chunk)") (simp_all add: Let_def Cons)
qed

lemma executeAction_interleaved_plain:
  "executeAction_interleaved engine (plain gateway) action s =
   executeAction engine gateway action s"
proof (cases "trim action = [] \<or> blocked s")
  case True
  then show ?thesis by (auto simp: executeAction_interleaved_def executeAction_def)
next
  case False
  let ?i = "length (storyLog (gameState s)) + 1"
  let ?g0 = "(gameState s)\<lparr>storyLog := storyLog (gameState s) @ [playerEntry action, narratorEntry []]\<rparr>"
  let ?started = "s\<lparr>gameState := ?g0, playerInput := [], isLoading := True\<rparr>"
  have "resolveTurn_interleaved engine (plain gateway) ?i ?started =
        resolveTurn engine gateway ?i ?started"
  proof (cases gateway)
    case CallFails
    then show ?thesis by (simp add: resolveTurn_interleaved_def resolveTurn_def)
  next
    case (Streams chunks interruption)
    obtain buffer g' where c: "consumeStream ?i chunks ([], ?g0) = (buffer, g')"
      by (cases "consumeStream ?i chunks ([], ?g0)")
    from c have "consumeStream (Suc (length (storyLog (gameState s)))) chunks ([], ?g0) =
                   (buffer, g')" by simp
    from narratorEntryIndex_in_range [OF this]
    have r: "?i \<le> length (storyLog g')" by simp
    show ?thesis
      using Streams c r
      by (simp add: resolveTurn_interleaved_def resolveTurn_def awaitStream_plain
               del: consumeStream.simps split: option.splits)
  qed
  with False show ?thesis
    by (simp add: executeAction_interleaved_def executeAction_def Let_def)
qed

text \<open>
  When no callback runs during the turn and the buffer is not JSON, the turn leaves the
  screen as it was but for the story log, which gains the entry of the player's action and
  one narrator entry holding the text of the error, and the input field, which is cleared.
\<close>

lemma malformed_buffer_without_callbacks:
  assumes "trim action \<noteq> []" and "\<not> blocked s" and "JSON_parse (concat chunks) = None"
  shows "executeAction engine (Streams chunks None) action s =
         Some (s\<lparr>gameState := (gameState s)
                   \<lparr>storyLog := storyLog (gameState s) @
                      [playerEntry action,
                       narratorEntry (syntaxErrorMessage engine (concat chunks))]\<rparr>,
                 playerInput := []\<rparr>)"
proof -
  let ?i = "length (storyLog (gameState s)) + 1"
  let ?g0 = "(gameState s)\<lparr>storyLog := storyLog (gameState s) @ [playerEntry action, narratorEntry []]\<rparr>"
  let ?started = "s\<lparr>gameState := ?g0, playerInput := [], isLoading := True\<rparr>"
  obtain g' where c: "consumeStream ?i chunks ([], ?g0) = (concat chunks, g')"
    and t: "logTouched ?i ?g0 g'"
    using consumeStream_result [of ?i chunks "[]" ?g0] by auto
  have i: "?i < length (storyLog ?g0)" by simp
  have "resolveTurn engine (Streams chunks None) ?i ?started =
        Some (showError ?i (ErrorWith (syntaxErrorMessage engine (concat chunks)))
                (?started\<lparr>gameState := g'\<rparr>))"
    using c assms(3) by (simp add: resolveTurn_def)
  also have "showError ?i (ErrorWith (syntaxErrorMessage engine (concat chunks)))
                (?started\<lparr>gameState := g'\<rparr>) =
             ?started\<lparr>gameState := ?g0\<lparr>storyLog := (storyLog ?g0)
                [?i := narratorEntry (errorTextOf (ErrorWith (syntaxErrorMessage engine (concat chunks))))]\<rparr>\<rparr>"
    by (rule showError_touched [OF t i])
  finally have r: "resolveTurn engine (Streams chunks None) ?i ?started =
     Some (?started\<lparr>gameState := ?g0\<lparr>storyLog := (storyLog ?g0)
                [?i := narratorEntry (syntaxErrorMessage engine (concat chunks))]\<rparr>\<rparr>)"
    by (simp add: errorTextOf_def)
  from assms(2) have nl: "\<not> isLoading s" by (simp add: blocked_def)
  have upd: "(storyLog ?g0)[?i := e] = storyLog (gameState s) @ [playerEntry action, e]" for e
    by (simp add: list_update_append)
  have e: "executeAction engine (Streams chunks None) action s =
           map_option (\<lambda>settled. settled\<lparr>isLoading := False\<rparr>)
             (resolveTurn engine (Streams chunks None) ?i ?started)"
    using assms(1,2) by (simp add: executeAction_def Let_def)
  show ?thesis
    unfolding e r using nl by (cases s) (simp add: list_update_append)
qed

lemma parse_fragment1: "JSON_parse fragment1 = None"
  by (simp add: fragment1_def json_eval)

text \<open>C2\<close>
section \<open>Properties of the sigil loop\<close>

text \<open>
  When the generated factions have different names, the loop gives the faction at each
  position the answer to the call of that position, whatever the answers to the other
  calls are; and one empty answer is enough to disable the button of the factions review.
\<close>

lemma replace_by_name:
  assumes "distinct (map faction_name (pre @ f # rest))" and "faction_name f' = faction_name f"
  shows "map (\<lambda>x. if faction_name x = faction_name f' then f' else x) (pre @ f # rest) =
         pre @ f' # rest"
proof -
  from assms(1) have "\<forall>x \<in> set pre \<union> set rest. faction_name x \<noteq> faction_name f"
    by (auto simp: image_iff)
  with assms(2) show ?thesis by (simp add: map_idI)
qed

lemma carveSigils_distinct:
  assumes "distinct (map faction_name (pre @ rest))"
  shows "carveSigils service k rest (Some (pre @ rest)) =
         Some (pre @ map (\<lambda>(j, f). f\<lparr>sigilImageUrl := generateSigilImage (service j)\<rparr>)
                       (zip [k..<k + length rest] rest))"
  using assms
proof (induction rest arbitrary: pre k)
  case Nil
  then show ?case by simp
next
  case (Cons f rest)
  let ?f' = "f\<lparr>sigilImageUrl := generateSigilImage (service k)\<rparr>"
  have r: "map (\<lambda>x. if faction_name x = faction_name ?f' then ?f' else x) (pre @ f # rest) =
           pre @ ?f' # rest"
    using Cons.prems by (intro replace_by_name) simp_all
  have d: "distinct (map faction_name ((pre @ [?f']) @ rest))"
    using Cons.prems by simp
  have z: "zip [k..<k + length (f # rest)] (f # rest) =
           (k, f) # zip [Suc k..<Suc k + length rest] rest"
    by (simp add: upt_conv_Cons del: upt_Suc)
  have "carveSigils service k (f # rest) (Some (pre @ f # rest)) =
        carveSigils service (Suc k) rest (Some ((pre @ [?f']) @ rest))"
    using r by (simp add: Let_def)
  also have "\<dots> = Some ((pre @ [?f']) @
                 map (\<lambda>(j, f). f\<lparr>sigilImageUrl := generateSigilImage (service j)\<rparr>)
                     (zip [Suc k..<Suc k + length rest] rest))"
    by (rule Cons.IH [OF d])
  finally show ?case unfolding z by simp
qed

lemma failed_sigil_disables_accept:
  assumes "distinct (map faction_name generated)" and "i < length generated"
    and "generateSigilImage (service i) = []"
  shows "acceptFactionsDisabled (handleAcceptFoundation (FactionsOk generated) service g)"
proof -
  let ?base = "map (\<lambda>f. f\<lparr>sigilImageUrl := []\<rparr>) generated"
  have "distinct (map faction_name ([] @ ?base))"
    using assms(1) by (simp add: comp_def)
  from carveSigils_distinct [OF this, of service 0]
  have c: "carveSigils service 0 ?base (Some ?base) =
           Some (map (\<lambda>(j, f). f\<lparr>sigilImageUrl := generateSigilImage (service j)\<rparr>)
                     (zip [0..<length ?base] ?base))" by simp
  have "(i, ?base ! i) \<in> set (zip [0..<length ?base] ?base)"
    using assms(2) by (auto simp: set_zip intro!: exI [of _ i])
  with assms(3)
  have "\<exists>p \<in> set (zip [0..<length ?base] ?base).
          sigilImageUrl (case p of (j, f) \<Rightarrow> f\<lparr>sigilImageUrl := generateSigilImage (service j)\<rparr>) = []"
    by (intro bexI [of _ "(i, ?base ! i)"]) simp_all
  then show ?thesis
    by (simp add: acceptFactionsDisabled_def handleAcceptFoundation_def Let_def c list_ex_iff
             del: carveSigils.simps)
qed

section \<open>The streaming assembler\<close>

text \<open>
  Claim C1. The three fragments \<^verbatim>\<open>{"narrative":"Hel\<close>, \<^verbatim>\<open>lo wor\<close> and
  \<^verbatim>\<open>ld","newLocation":"X"}\<close>, fed in this order: the first and the second fragment give
  no preview, since the pattern needs the closing quote of the narrative; the third one
  sets the preview to \<^verbatim>\<open>Hello world\<close>. The whole buffer parses, its \<^verbatim>\<open>narrative\<close> is exactly
  \<^verbatim>\<open>Hello world\<close>, and the turn goes on to commit the response: no error is shown on the
  way. On the story log of a started turn the narrator entry ends as \<^verbatim>\<open>Hello world\<close>.
\<close>

theorem streamed_fragments_preview:
  "consumeStream i [fragment1] ([], g) = (fragment1, g) \<and>
   consumeStream i [fragment1, fragment2] ([], g) = (fragment1 @ fragment2, g) \<and>
   consumeStream i [fragment1, fragment2, fragment3] ([], g) =
     (fragment1 @ fragment2 @ fragment3, showPreview i (js ''Hello world'') g) \<and>
   JSON_parse (fragment1 @ fragment2 @ fragment3) =
     Some (JObject [(js ''narrative'', JString (js ''Hello world'')),
                    (js ''newLocation'', JString (js ''X''))]) \<and>
   resolveTurn engine (Streams [fragment1, fragment2, fragment3] None) i s =
     map_option
       (\<lambda>response. commitResponse i response
                      (s\<lparr>gameState := showPreview i (js ''Hello world'') (gameState s)\<rparr>))
       (asResponse engine
          (JObject [(js ''narrative'', JString (js ''Hello world'')),
                    (js ''newLocation'', JString (js ''X''))])) \<and>
   map entry_text
     (storyLog (snd (consumeStream 2 [fragment1, fragment2, fragment3] ([], gameState demoTurnStarted)))) =
     [js ''Fog on the quay'', js ''look'', js ''Hello world'']"
proof (intro conjI)
  show "resolveTurn engine (Streams [fragment1, fragment2, fragment3] None) i s =
     map_option
       (\<lambda>response. commitResponse i response
                      (s\<lparr>gameState := showPreview i (js ''Hello world'') (gameState s)\<rparr>))
       (asResponse engine
          (JObject [(js ''narrative'', JString (js ''Hello world'')),
                    (js ''newLocation'', JString (js ''X''))]))"
    by (simp add: resolveTurn_def consume_fragments(3) parse_fragment123
             del: consumeStream.simps split: option.splits)
  show "map entry_text
     (storyLog (snd (consumeStream 2 [fragment1, fragment2, fragment3] ([], gameState demoTurnStarted)))) =
     [js ''Fog on the quay'', js ''look'', js ''Hello world'']"
    by (simp only: consume_fragments(3) snd_conv)
       (simp add: showPreview_def demoTurnStarted_def lookAction_def demoScreen_def
          initialScreen_def demoScenario_def playerEntry_def narratorEntry_def)
qed (simp_all only: consume_fragments parse_fragment123)

text \<open>
  After the first fragment alone there is no preview \<^verbatim>\<open>Hel\<close>: the narrator entry of the
  turn is still empty.
\<close>

theorem first_fragment_preview_counterexample:
  "narrativePreview fragment1 \<noteq> Some (js ''Hel'') \<and>
   map entry_text (storyLog (snd (consumeStream 2 [fragment1] ([], gameState demoTurnStarted)))) =
     [js ''Fog on the quay'', js ''look'', []]"
  by (simp only: preview_fragment1 consume_fragments(1) snd_conv)
     (simp add: demoTurnStarted_def lookAction_def demoScreen_def
        initialScreen_def demoScenario_def playerEntry_def narratorEntry_def)

section \<open>A buffer that is not JSON\<close>

text \<open>
  Claim C2. A buffer that fails to parse is meant to replace the narrator entry of the turn
  by the text of the error, and without an image callback during the turn it does. The
  index of that entry is computed once, when the turn starts; when the image awaited since
  the screen was mounted fails while the turn waits for the stream, its placeholder is
  removed from the story log, the entries of the turn move down by one, and the index points
  past the end of the log. The handler of the error then finds no entry to replace: the log
  ends with the player's action and the empty narrator entry, and the error is shown
  nowhere. The first two conjuncts fix the input: the log of the screen before the turn and
  a truncated document as the only chunk. The third is the turn with the failing image, the
  fourth the same turn without it.
\<close>

theorem error_lost_when_image_fails_mid_turn:
  "map entry_text (storyLog (gameState awaitingImage)) = [js ''Fog on the quay'', []] \<and>
   JSON_parse fragment1 = None \<and>
   map_option (\<lambda>s'. map entry_text (storyLog (gameState s')))
     (executeAction_interleaved (scriptedEngine demoResponse)
        (Streamed [Callback ImageBreaks, Chunk fragment1] None) lookAction awaitingImage) =
     Some [js ''Fog on the quay'', js ''look'', []] \<and>
   map_option (\<lambda>s'. map entry_text (storyLog (gameState s')))
     (executeAction_interleaved (scriptedEngine demoResponse)
        (Streamed [Chunk fragment1] None) lookAction awaitingImage) =
     Some [js ''Fog on the quay'', [], js ''look'', js ''Unexpected end of JSON input'']"
  by (simp add: executeAction_interleaved_def resolveTurn_interleaved_def Let_def
        preview_fragment1 parse_fragment1 blocked_def trim_def js_space_def lookAction_def
        showError_def imageFailed_def stillLoading_def scriptedEngine_def errorTextOf_def
        awaitingImage_def generateInitialImage_def demoScreen_def initialScreen_def
        demoScenario_def placeholderEntry_def playerEntry_def narratorEntry_def)
section \<open>Quests: completion, new quests, idempotence\<close>









section \<open>Experience and levels\<close>

text \<open>
  Claim C6. Confirming a level-up raises the level by one, takes the old threshold off the
  experience points (what is left carries over), sets the threshold to one and a half
  times the old one, rounded down, adds the chosen increases to the three maxima and fills
  health, mana and stamina up to the new maxima; the level-up is then no longer pending.
  For the character with 95 points and a threshold of 100, a turn that grants 10 points
  leaves 105 points and a pending level-up, and confirming with 50 more maximal health
  gives one more level, 5 points, a threshold of 150 and health at the new maximum.
\<close>

theorem level_up_confirmation:
  "level (character (scenario (gameState (handleLevelUpConfirm h m st s)))) =
     level (character (scenario (gameState s))) + 1 \<and>
   xp (character (scenario (gameState (handleLevelUpConfirm h m st s)))) =
     xp (character (scenario (gameState s))) - xpToNextLevel (character (scenario (gameState s))) \<and>
   xpToNextLevel (character (scenario (gameState (handleLevelUpConfirm h m st s)))) =
     \<lfloor>real_of_int (xpToNextLevel (character (scenario (gameState s)))) * 1.5\<rfloor> \<and>
   maxHealth (character (scenario (gameState (handleLevelUpConfirm h m st s)))) =
     maxHealth (character (scenario (gameState s))) + h \<and>
   maxMana (character (scenario (gameState (handleLevelUpConfirm h m st s)))) =
     maxMana (character (scenario (gameState s))) + m \<and>
   maxStamina (character (scenario (gameState (handleLevelUpConfirm h m st s)))) =
     maxStamina (character (scenario (gameState s))) + st \<and>
   health (character (scenario (gameState (handleLevelUpConfirm h m st s)))) =
     maxHealth (character (scenario (gameState (handleLevelUpConfirm h m st s)))) \<and>
   mana (character (scenario (gameState (handleLevelUpConfirm h m st s)))) =
     maxMana (character (scenario (gameState (handleLevelUpConfirm h m st s)))) \<and>
   stamina (character (scenario (gameState (handleLevelUpConfirm h m st s)))) =
     maxStamina (character (scenario (gameState (handleLevelUpConfirm h m st s)))) \<and>
   \<not> isLevelingUp (handleLevelUpConfirm h m st s) \<and>
   xp demoCharacter = 95 \<and> xpToNextLevel demoCharacter = 100 \<and>
   map_option (\<lambda>s1. (isLevelingUp s1, xp (character (scenario (gameState s1)))))
     (executeAction (scriptedEngine (xpResponse 10)) (Streams [emptyObject] None) lookAction
        demoScreen) = Some (True, 105) \<and>
   map_option
     (\<lambda>s1. (level (character (scenario (gameState (handleLevelUpConfirm 50 0 0 s1)))) -
               level (character (scenario (gameState s1))),
            xp (character (scenario (gameState (handleLevelUpConfirm 50 0 0 s1)))),
            xpToNextLevel (character (scenario (gameState (handleLevelUpConfirm 50 0 0 s1)))),
            health (character (scenario (gameState (handleLevelUpConfirm 50 0 0 s1)))) -
               maxHealth (character (scenario (gameState s1))),
            isLevelingUp (handleLevelUpConfirm 50 0 0 s1)))
     (executeAction (scriptedEngine (xpResponse 10)) (Streams [emptyObject] None) lookAction
        demoScreen) = Some (1, 5, 150, 50, False)"
proof -
  have run: "\<And>i. xp (character (scenario (gameState
               (commitResponse i (xpResponse 10) demoTurnStarted)))) = 105"
    "\<And>i. xpToNextLevel (character (scenario (gameState
               (commitResponse i (xpResponse 10) demoTurnStarted)))) = 100"
    "\<And>i. isLevelingUp (commitResponse i (xpResponse 10) demoTurnStarted)"
    by (simp_all add: commitResponse_character commitResponse_isLevelingUp applyXp_def
          levelUpTriggered_def truthyXp_def xpResponse_def demoResponse_def
          demoTurnStarted_def demoScreen_def initialScreen_def demoScenario_def demoCharacter_def applyStats_def)
  have general: "\<And>s. xp (character (scenario (gameState (handleLevelUpConfirm 50 0 0 s)))) =
          xp (character (scenario (gameState s))) - xpToNextLevel (character (scenario (gameState s)))"
    "\<And>s. xpToNextLevel (character (scenario (gameState (handleLevelUpConfirm 50 0 0 s)))) =
     \<lfloor>real_of_int (xpToNextLevel (character (scenario (gameState s)))) * 1.5\<rfloor>"
    "\<And>s. level (character (scenario (gameState (handleLevelUpConfirm 50 0 0 s)))) =
          level (character (scenario (gameState s))) + 1"
    "\<And>s. health (character (scenario (gameState (handleLevelUpConfirm 50 0 0 s)))) =
          maxHealth (character (scenario (gameState s))) + 50"
    "\<And>s. \<not> isLevelingUp (handleLevelUpConfirm 50 0 0 s)"
    by (simp_all add: handleLevelUpConfirm_def Let_def)
  show ?thesis
    apply (intro conjI)
                 apply (simp_all add: handleLevelUpConfirm_def Let_def)[10]
       apply (simp add: demoCharacter_def)
      apply (simp add: demoCharacter_def)
     apply (simp add: demo_turn run)
    apply (simp add: demo_turn general run)
    done
qed

text \<open>
  Claim C10. In a turn that is accepted and whose buffer parses to a response, an amount
  of gained experience that is present and not zero, negative amounts included, is added
  to the experience points, and the level-up is pending afterwards exactly when the new
  total reaches the threshold; an amount that is absent or zero leaves the points as they
  are and flags no level-up. The threshold is not changed by the turn.
\<close>

theorem xp_gain_applied_when_nonzero:
  assumes "trim action \<noteq> []" and "\<not> blocked s"
    and "JSON_parse (concat chunks) = Some document" and "asResponse engine document = Some r"
  shows "\<exists>s'. executeAction engine (Streams chunks None) action s = Some s' \<and>
           xpToNextLevel (character (scenario (gameState s'))) =
             xpToNextLevel (character (scenario (gameState s))) \<and>
           (\<forall>cu n. characterUpdate r = Some cu \<and> xpGained cu = Some n \<and> n \<noteq> 0 \<longrightarrow>
              xp (character (scenario (gameState s'))) =
                xp (character (scenario (gameState s))) + n \<and>
              (isLevelingUp s' \<longleftrightarrow>
                 xp (character (scenario (gameState s))) + n \<ge>
                   xpToNextLevel (character (scenario (gameState s))))) \<and>
           (characterUpdate r = None \<or>
            (\<exists>cu. characterUpdate r = Some cu \<and> (xpGained cu = None \<or> xpGained cu = Some 0)) \<longrightarrow>
              xp (character (scenario (gameState s'))) = xp (character (scenario (gameState s))) \<and>
              \<not> isLevelingUp s')"
proof -
  let ?i = "Suc (length (storyLog (gameState s)))"
  let ?g0 = "(gameState s)\<lparr>storyLog := storyLog (gameState s) @ [playerEntry action, narratorEntry []]\<rparr>"
  from executeAction_commits [OF assms] obtain g' where
    t: "logTouched ?i ?g0 g'"
    and e: "executeAction engine (Streams chunks None) action s =
            Some ((commitResponse ?i r
                     (s\<lparr>gameState := ?g0, playerInput := [], isLoading := True, gameState := g'\<rparr>))
                  \<lparr>isLoading := False\<rparr>)"
    by blast
  let ?s' = "(commitResponse ?i r
                     (s\<lparr>gameState := ?g0, playerInput := [], isLoading := True, gameState := g'\<rparr>))
                  \<lparr>isLoading := False\<rparr>"
  from logTouched_fields(2) [OF t] have sc: "scenario g' = scenario (gameState s)" by simp
  from assms(2) have nl: "\<not> isLevelingUp s" by (simp add: blocked_def)
  have ch: "character (scenario (gameState ?s')) =
            applyXp r (applyStats r (character (scenario (gameState s))))"
    by (simp add: commitResponse_character sc)
  have lv: "isLevelingUp ?s' =
            levelUpTriggered r (applyStats r (character (scenario (gameState s))))"
    using nl by (simp add: commitResponse_isLevelingUp sc)
  have "xpToNextLevel (character (scenario (gameState ?s'))) =
          xpToNextLevel (character (scenario (gameState s)))"
    unfolding ch by (simp add: applyXp_def split: option.splits)
  moreover have "xp (character (scenario (gameState ?s'))) =
                   xp (character (scenario (gameState s))) + n \<and>
                 (isLevelingUp ?s' \<longleftrightarrow>
                    xp (character (scenario (gameState s))) + n \<ge>
                      xpToNextLevel (character (scenario (gameState s))))"
    if "characterUpdate r = Some cu \<and> xpGained cu = Some n \<and> n \<noteq> 0" for cu n
    unfolding ch lv using that
    by (simp add: applyXp_def levelUpTriggered_def truthyXp_def Let_def)
  moreover have "xp (character (scenario (gameState ?s'))) =
                   xp (character (scenario (gameState s))) \<and> \<not> isLevelingUp ?s'"
    if "characterUpdate r = None \<or>
        (\<exists>cu. characterUpdate r = Some cu \<and> (xpGained cu = None \<or> xpGained cu = Some 0))"
    unfolding ch lv using that
    by (auto simp: applyXp_def levelUpTriggered_def truthyXp_def Let_def)
  ultimately show ?thesis unfolding e by blast
qed

theorem xp_gain_applied_when_nonzero_witness:
  "trim lookAction \<noteq> [] \<and> \<not> blocked demoScreen \<and>
   JSON_parse (concat [emptyObject]) = Some (JObject []) \<and>
   asResponse (scriptedEngine (xpResponse (- 10))) (JObject []) = Some (xpResponse (- 10)) \<and>
   xp (character (scenario (gameState demoScreen))) = 95 \<and>
   map_option (\<lambda>s'. (xp (character (scenario (gameState s'))), isLevelingUp s'))
     (executeAction (scriptedEngine (xpResponse (- 10))) (Streams [emptyObject] None) lookAction
        demoScreen) = Some (85, False)"
proof -
  have c: "JSON_parse (concat [emptyObject]) = Some (JObject [])"
    by (simp add: demo_empty_object)
  have d: "asResponse (scriptedEngine (xpResponse (- 10))) (JObject []) = Some (xpResponse (- 10))"
    by (simp add: scriptedEngine_def)
  have x: "xp (character (scenario (gameState demoScreen))) = 95"
    "xpToNextLevel (character (scenario (gameState demoScreen))) = 100"
    by (simp_all add: demoScreen_def initialScreen_def demoScenario_def demoCharacter_def)
  have u: "characterUpdate (xpResponse (- 10)) =
             Some \<lparr>upd_health = None, upd_mana = None, upd_stamina = None, xpGained = Some (- 10)\<rparr>"
    by (simp add: xpResponse_def)
  from xp_gain_applied_when_nonzero [OF demo_accepts c d] obtain s' where
    e: "executeAction (scriptedEngine (xpResponse (- 10))) (Streams [emptyObject] None) lookAction
          demoScreen = Some s'"
    and g: "\<forall>cu n. characterUpdate (xpResponse (- 10)) = Some cu \<and> xpGained cu = Some n \<and> n \<noteq> 0 \<longrightarrow>
              xp (character (scenario (gameState s'))) =
                xp (character (scenario (gameState demoScreen))) + n \<and>
              (isLevelingUp s' \<longleftrightarrow>
                 xp (character (scenario (gameState demoScreen))) + n \<ge>
                   xpToNextLevel (character (scenario (gameState demoScreen))))"
    by blast
  from g [rule_format, of "\<lparr>upd_health = None, upd_mana = None, upd_stamina = None,
                            xpGained = Some (- 10)\<rparr>" "- 10"] u x
  have "xp (character (scenario (gameState s'))) = 85" "\<not> isLevelingUp s'" by simp_all
  with e demo_accepts c d x show ?thesis by simp
qed

section \<open>Lore updates\<close>

text \<open>
  Claim C7. No turn changes the lore: a lore update of the response is only staged as the
  proposed update. Rejecting discards the proposal and leaves the game state, lore
  included, as it is. Accepting clears the proposal; when the entry is already known, a
  location or character of that name or a knowledge line of that content, the game state
  stays as it is, and otherwise the entry is appended to the locations, characters or
  knowledge of the lore and nothing else changes.
\<close>

theorem lore_update_staged_until_accepted:
  "(executeAction engine gateway action s = Some s' \<longrightarrow>
      lore (gameState s') = lore (gameState s)) \<and>
   (trim action \<noteq> [] \<and> \<not> blocked s \<and> JSON_parse (concat chunks) = Some document \<and>
    asResponse engine document = Some r \<longrightarrow>
      (\<exists>s1. executeAction engine (Streams chunks None) action s = Some s1 \<and>
            proposedUpdate s1 = loreUpdate r)) \<and>
   gameState (handleRejectUpdate s) = gameState s \<and>
   proposedUpdate (handleRejectUpdate s) = None \<and>
   (proposedUpdate s = None \<longrightarrow> handleAcceptUpdate s = s) \<and>
   (proposedUpdate s = Some u \<longrightarrow>
      proposedUpdate (handleAcceptUpdate s) = None \<and>
      (alreadyKnown u (lore (gameState s)) \<longrightarrow>
         gameState (handleAcceptUpdate s) = gameState s) \<and>
      (\<not> alreadyKnown u (lore (gameState s)) \<longrightarrow>
         gameState (handleAcceptUpdate s) =
           (gameState s)\<lparr>lore := merged u (lore (gameState s))\<rparr>))"
proof (intro conjI impI)
  assume "executeAction engine gateway action s = Some s'"
  then show "lore (gameState s') = lore (gameState s)" by (rule executeAction_lore)
next
  assume a: "trim action \<noteq> [] \<and> \<not> blocked s \<and> JSON_parse (concat chunks) = Some document \<and>
             asResponse engine document = Some r"
  then have np: "proposedUpdate s = None" by (simp add: blocked_def)
  from a executeAction_commits [of action s chunks document engine r]
  obtain g' where
    "executeAction engine (Streams chunks None) action s =
       Some ((commitResponse (Suc (length (storyLog (gameState s)))) r
                (s\<lparr>gameState := (gameState s)\<lparr>storyLog := storyLog (gameState s) @
                       [playerEntry action, narratorEntry []]\<rparr>,
                   playerInput := [], isLoading := True, gameState := g'\<rparr>))
             \<lparr>isLoading := False\<rparr>)"
    by blast
  with np show "\<exists>s1. executeAction engine (Streams chunks None) action s = Some s1 \<and>
                     proposedUpdate s1 = loreUpdate r"
    by (simp add: commitResponse_proposedUpdate split: option.splits)
next
  show "gameState (handleRejectUpdate s) = gameState s" by (simp add: handleRejectUpdate_def)
  show "proposedUpdate (handleRejectUpdate s) = None" by (simp add: handleRejectUpdate_def)
next
  assume "proposedUpdate s = None"
  then show "handleAcceptUpdate s = s" by (simp add: handleAcceptUpdate_def)
next
  assume "proposedUpdate s = Some u"
  then show "proposedUpdate (handleAcceptUpdate s) = None"
    by (simp add: handleAcceptUpdate_def Let_def)
next
  assume "proposedUpdate s = Some u" and "alreadyKnown u (lore (gameState s))"
  then show "gameState (handleAcceptUpdate s) = gameState s"
    by (cases "lore_type u")
       (auto simp: handleAcceptUpdate_def alreadyKnown_def Let_def list_ex_iff image_iff)
next
  assume "proposedUpdate s = Some u" and "\<not> alreadyKnown u (lore (gameState s))"
  then show "gameState (handleAcceptUpdate s) =
               (gameState s)\<lparr>lore := merged u (lore (gameState s))\<rparr>"
    by (cases "lore_type u")
       (auto simp: handleAcceptUpdate_def alreadyKnown_def merged_def Let_def list_ex_iff image_iff)
qed

theorem lore_update_staged_until_accepted_witness:
  "alreadyKnown millUpdate (lore (gameState demoScreen)) \<and>
   gameState (handleAcceptUpdate (demoScreen\<lparr>proposedUpdate := Some millUpdate\<rparr>)) =
     gameState demoScreen \<and>
   \<not> alreadyKnown lighthouseUpdate (lore (gameState demoScreen)) \<and>
   map disc_name (locations (lore (gameState
       (handleAcceptUpdate (demoScreen\<lparr>proposedUpdate := Some lighthouseUpdate\<rparr>))))) =
     [js ''Old Mill'', js ''Lighthouse''] \<and>
   handleAcceptUpdate demoScreen = demoScreen \<and>
   trim lookAction \<noteq> [] \<and> \<not> blocked demoScreen \<and>
   JSON_parse (concat [emptyObject]) = Some (JObject []) \<and>
   map_option (\<lambda>s1. (proposedUpdate s1, lore (gameState s1)))
     (executeAction (scriptedEngine (demoResponse\<lparr>loreUpdate := Some lighthouseUpdate\<rparr>))
        (Streams [emptyObject] None) lookAction demoScreen) =
     Some (Some lighthouseUpdate, demoLore)"
proof -
  let ?engine = "scriptedEngine (demoResponse\<lparr>loreUpdate := Some lighthouseUpdate\<rparr>)"
  have k: "alreadyKnown millUpdate (lore (gameState demoScreen))"
    "\<not> alreadyKnown lighthouseUpdate (lore (gameState demoScreen))"
    by (simp_all add: alreadyKnown_def millUpdate_def lighthouseUpdate_def demoScreen_def
          initialScreen_def demoLore_def)
  have c: "JSON_parse (concat [emptyObject]) = Some (JObject [])"
    by (simp add: demo_empty_object)
  have d: "asResponse ?engine (JObject []) = Some (demoResponse\<lparr>loreUpdate := Some lighthouseUpdate\<rparr>)"
    by (simp add: scriptedEngine_def)
  have l: "lore (gameState demoScreen) = demoLore" "proposedUpdate demoScreen = None"
    by (simp_all add: demoScreen_def initialScreen_def)
  note t1 = lore_update_staged_until_accepted
    [of ?engine "Streams [emptyObject] None" lookAction demoScreen _ "[emptyObject]" "JObject []"
        "demoResponse\<lparr>loreUpdate := Some lighthouseUpdate\<rparr>"]
  from t1 demo_accepts c d obtain s1 where
    e: "executeAction ?engine (Streams [emptyObject] None) lookAction demoScreen = Some s1"
    and p: "proposedUpdate s1 = Some lighthouseUpdate"
    by (auto simp: demoResponse_def)
  from t1 [of s1] e have "lore (gameState s1) = demoLore" by (simp add: l)
  with e p have run: "map_option (\<lambda>s1. (proposedUpdate s1, lore (gameState s1)))
     (executeAction ?engine (Streams [emptyObject] None) lookAction demoScreen) =
     Some (Some lighthouseUpdate, demoLore)" by simp
  note t2 = lore_update_staged_until_accepted
    [of _ _ _ "demoScreen\<lparr>proposedUpdate := Some millUpdate\<rparr>" _ _ _ _ millUpdate]
  note t3 = lore_update_staged_until_accepted
    [of _ _ _ "demoScreen\<lparr>proposedUpdate := Some lighthouseUpdate\<rparr>" _ _ _ _ lighthouseUpdate]
  note t4 = lore_update_staged_until_accepted [of _ _ _ demoScreen]
  from t2 k(1) have a1: "gameState (handleAcceptUpdate (demoScreen\<lparr>proposedUpdate := Some millUpdate\<rparr>)) =
     gameState demoScreen" by simp
  from t3 k(2) have "gameState (handleAcceptUpdate (demoScreen\<lparr>proposedUpdate := Some lighthouseUpdate\<rparr>)) =
     (gameState demoScreen)\<lparr>lore := merged lighthouseUpdate (lore (gameState demoScreen))\<rparr>"
    by simp
  then have a2: "map disc_name (locations (lore (gameState
       (handleAcceptUpdate (demoScreen\<lparr>proposedUpdate := Some lighthouseUpdate\<rparr>))))) =
     [js ''Old Mill'', js ''Lighthouse'']"
    by (simp add: merged_def lighthouseUpdate_def l demoLore_def)
  from t4 l(2) have a3: "handleAcceptUpdate demoScreen = demoScreen" by simp
  from k a1 a2 a3 demo_accepts c run show ?thesis by simp
qed

section \<open>The gates of a submit\<close>

text \<open>
  Claim C8. While a turn is loading, a level-up is pending, a lore update awaits its
  decision or the game is over, a typed action and the use of an item are rejected and
  leave the whole screen state, the game state included, as it is. Once the game is over
  it stays over whatever happens next, and the actions and item uses in any later history
  can be struck out without changing its outcome.
\<close>

theorem closed_gates_reject_actions:
  assumes "blocked s"
  shows "executeAction engine gateway action s = Some s \<and>
         handleSubmit engine gateway s = Some s \<and>
         handleUseItem engine gateway item s = Some s \<and>
         (isGameOver (gameState s) \<longrightarrow>
            (\<exists>s'. run engine events s = Some s' \<and> isGameOver (gameState s')) \<and>
            run engine events s = run engine (filter (\<lambda>e. \<not> isAction e) events) s)"
proof (intro conjI impI)
  show "executeAction engine gateway action s = Some s"
    using assms by (simp add: executeAction_def)
  show "handleSubmit engine gateway s = Some s"
    using assms by (simp add: handleSubmit_def executeAction_def)
  show "handleUseItem engine gateway item s = Some s"
    using assms by (simp add: handleUseItem_def)
next
  assume o: "isGameOver (gameState s)"
  from run_when_over [OF o, of engine events]
  show "\<exists>s'. run engine events s = Some s' \<and> isGameOver (gameState s')"
    and "run engine events s = run engine (filter (\<lambda>e. \<not> isAction e) events) s"
    by blast+
qed

theorem closed_gates_reject_actions_witness:
  "blocked (demoScreen\<lparr>isLoading := True\<rparr>) \<and>
   executeAction (scriptedEngine demoResponse) (Streams [emptyObject] None) lookAction
     (demoScreen\<lparr>isLoading := True\<rparr>) = Some (demoScreen\<lparr>isLoading := True\<rparr>) \<and>
   blocked (demoScreen\<lparr>isLevelingUp := True\<rparr>) \<and>
   executeAction (scriptedEngine demoResponse) (Streams [emptyObject] None) lookAction
     (demoScreen\<lparr>isLevelingUp := True\<rparr>) = Some (demoScreen\<lparr>isLevelingUp := True\<rparr>) \<and>
   blocked (demoScreen\<lparr>proposedUpdate := Some millUpdate\<rparr>) \<and>
   handleUseItem (scriptedEngine demoResponse) (Streams [emptyObject] None) demoPotion
     (demoScreen\<lparr>proposedUpdate := Some millUpdate\<rparr>) =
     Some (demoScreen\<lparr>proposedUpdate := Some millUpdate\<rparr>) \<and>
   blocked gameOverScreen \<and> isGameOver (gameState gameOverScreen) \<and>
   executeAction (scriptedEngine demoResponse) (Streams [emptyObject] None) lookAction
     gameOverScreen = Some gameOverScreen \<and>
   run (scriptedEngine demoResponse)
     [Act lookAction (Streams [emptyObject] None), ImageFailed,
      UseItem demoPotion (Streams [emptyObject] None)] gameOverScreen =
     run (scriptedEngine demoResponse) [ImageFailed] gameOverScreen"
proof -
  have b: "blocked (demoScreen\<lparr>isLoading := True\<rparr>)"
    "blocked (demoScreen\<lparr>isLevelingUp := True\<rparr>)"
    "blocked (demoScreen\<lparr>proposedUpdate := Some millUpdate\<rparr>)"
    "blocked gameOverScreen" "isGameOver (gameState gameOverScreen)"
    by (simp_all add: blocked_def gameOverScreen_def)
  note inst = closed_gates_reject_actions [of _ "scriptedEngine demoResponse"
      "Streams [emptyObject] None" lookAction demoPotion
      "[Act lookAction (Streams [emptyObject] None), ImageFailed,
        UseItem demoPotion (Streams [emptyObject] None)]"]
  have w1: "executeAction (scriptedEngine demoResponse) (Streams [emptyObject] None) lookAction
     (demoScreen\<lparr>isLoading := True\<rparr>) = Some (demoScreen\<lparr>isLoading := True\<rparr>)"
    by (rule inst [OF b(1), THEN conjunct1])
  have w2: "executeAction (scriptedEngine demoResponse) (Streams [emptyObject] None) lookAction
     (demoScreen\<lparr>isLevelingUp := True\<rparr>) = Some (demoScreen\<lparr>isLevelingUp := True\<rparr>)"
    by (rule inst [OF b(2), THEN conjunct1])
  have w3: "handleUseItem (scriptedEngine demoResponse) (Streams [emptyObject] None) demoPotion
     (demoScreen\<lparr>proposedUpdate := Some millUpdate\<rparr>) =
     Some (demoScreen\<lparr>proposedUpdate := Some millUpdate\<rparr>)"
    by (rule inst [OF b(3), THEN conjunct2, THEN conjunct2, THEN conjunct1])
  have w4: "executeAction (scriptedEngine demoResponse) (Streams [emptyObject] None) lookAction
     gameOverScreen = Some gameOverScreen"
    by (rule inst [OF b(4), THEN conjunct1])
  have "run (scriptedEngine demoResponse)
     [Act lookAction (Streams [emptyObject] None), ImageFailed,
      UseItem demoPotion (Streams [emptyObject] None)] gameOverScreen =
     run (scriptedEngine demoResponse)
       (filter (\<lambda>e. \<not> isAction e)
          [Act lookAction (Streams [emptyObject] None), ImageFailed,
           UseItem demoPotion (Streams [emptyObject] None)]) gameOverScreen"
    by (rule inst [OF b(4), THEN conjunct2, THEN conjunct2, THEN conjunct2, rule_format,
                   OF b(5), THEN conjunct2])
  also have "filter (\<lambda>e. \<not> isAction e)
          [Act lookAction (Streams [emptyObject] None), ImageFailed,
           UseItem demoPotion (Streams [emptyObject] None)] = [ImageFailed]"
    by simp
  finally have w5: "run (scriptedEngine demoResponse)
     [Act lookAction (Streams [emptyObject] None), ImageFailed,
      UseItem demoPotion (Streams [emptyObject] None)] gameOverScreen =
     run (scriptedEngine demoResponse) [ImageFailed] gameOverScreen" .
  from b w1 w2 w3 w4 w5 show ?thesis by (intro conjI)
qed

section \<open>Sigils\<close>

text \<open>
  Claim C9, at three factions where the image service fails for the second one: the
  first and the third faction get their sigils, the second one keeps the empty sigil, the
  factions review is reached with nothing loading, and its button "Accept & Continue" is
  disabled.
\<close>

theorem failed_sigil_locks_factions_review:
  "handleAcceptFoundation (FactionsOk [ironHand, tideWardens, ashCircle]) secondCallFails
     foundationAccepted =
     foundationAccepted
       \<lparr>step := FactionsReview,
        builderFactions :=
          Some [ironHand\<lparr>sigilImageUrl := js ''data:image/png;base64,QUJD''\<rparr>,
                tideWardens,
                ashCircle\<lparr>sigilImageUrl := js ''data:image/png;base64,QUJD''\<rparr>]\<rparr> \<and>
   sigilImageUrl tideWardens = [] \<and>
   acceptFactionsDisabled
     (handleAcceptFoundation (FactionsOk [ironHand, tideWardens, ashCircle]) secondCallFails
        foundationAccepted)"
  by (simp add: handleAcceptFoundation_def acceptFactionsDisabled_def generateSigilImage_def
        secondCallFails_def foundationAccepted_def ironHand_def tideWardens_def ashCircle_def
        Let_def)

end
